theory Spec2Isabelle
  imports Main "HOL-Library.Sublist"
begin

chapter \<open>The resilient element-interaction layer\<close>

text \<open>
  A shallow embedding of the interaction layer of the test suite: the retry engine, the
  smart wait, the health checker, the read and toggle operations of \<open>ElementHelper\<close>
  (\<open>src/utils/element.helper.ts\<close>), the \<open>SmartLogger\<close> (\<open>src/utils/ai-context.utils.ts\<close>)
  and \<open>ErrorInspector.generateFailureSuggestions\<close> (\<open>src/utils/environment.utils.ts\<close>).

  Conventions. A JavaScript string is a \<open>string\<close>; on ASCII text one \<open>char\<close> is one UTF-16
  code unit, and the icon prefixes of the source's literals are kept as the bytes of the
  source file. A JavaScript \<open>number\<close> that counts or indexes is an \<open>int\<close>. A call that may
  throw returns a sum, \<open>Inl\<close> carrying the thrown value. Calls into the browser driver are
  inputs of the model: a locator is the record of what each driver call on it answers.
\<close>

section \<open>Strings and values\<close>

definition toLowerChar :: "char \<Rightarrow> char" where
  "toLowerChar c =
     (let n = (of_char c :: nat) in if 65 \<le> n \<and> n \<le> 90 then char_of (n + 32) else c)"

text \<open>\<open>String.prototype.toLowerCase\<close>, on ASCII letters.\<close>

definition toLowerCase :: "string \<Rightarrow> string" where
  "toLowerCase s = map toLowerChar s"

text \<open>\<open>s.includes(p)\<close>: \<open>p\<close> occurs in \<open>s\<close> as a contiguous run.\<close>

fun str_includes :: "string \<Rightarrow> string \<Rightarrow> bool" where
  "str_includes [] p = (p = [])"
| "str_includes (c # s) p = (prefix p (c # s) \<or> str_includes s p)"

definition digit_char :: "nat \<Rightarrow> char" where
  "digit_char d = char_of (48 + d)"

fun show_nat :: "nat \<Rightarrow> string" where
  "show_nat n = (if n < 10 then [digit_char n] else show_nat (n div 10) @ [digit_char (n mod 10)])"

declare show_nat.simps [simp del]

text \<open>How a template literal renders an integral number.\<close>

definition show_int :: "int \<Rightarrow> string" where
  "show_int i = (if i < 0 then ''-'' @ show_nat (nat (- i)) else show_nat (nat i))"

text \<open>
  White space and line terminators, in ASCII, and \<open>String.prototype.trim\<close> on them. The
  white space outside ASCII that \<open>trim\<close> also strips (U+00A0, U+FEFF and the Unicode
  space separators) is not modelled: such a character stays where it is.
\<close>

definition is_space :: "char \<Rightarrow> bool" where
  "is_space c = ((of_char c :: nat) \<in> {9, 10, 11, 12, 13, 32})"

definition trim :: "string \<Rightarrow> string" where
  "trim s = rev (dropWhile is_space (rev (dropWhile is_space s)))"

text \<open>
  \<open>parseInt(s)\<close> without a radix argument: leading white space, a sign, a \<open>0x\<close> prefix for
  radix 16, then the longest run of digits; \<open>None\<close> is \<open>NaN\<close>. The result is the exact
  integer: the rounding to a double of a value beyond \<open>2^53\<close> is not modelled.
\<close>

definition digit_value :: "char \<Rightarrow> nat option" where
  "digit_value c =
     (let n = (of_char c :: nat) in
      if 48 \<le> n \<and> n \<le> 57 then Some (n - 48)
      else if 97 \<le> n \<and> n \<le> 102 then Some (n - 87)
      else if 65 \<le> n \<and> n \<le> 70 then Some (n - 55)
      else None)"

fun parse_digits :: "nat \<Rightarrow> string \<Rightarrow> nat list" where
  "parse_digits radix [] = []"
| "parse_digits radix (c # cs) =
     (case digit_value c of
        Some d \<Rightarrow> (if d < radix then d # parse_digits radix cs else [])
      | None \<Rightarrow> [])"

definition parseInt :: "string \<Rightarrow> int option" where
  "parseInt s =
     (let s1 = dropWhile is_space s;
          neg = (case s1 of c # r \<Rightarrow> c = CHR ''-'' | [] \<Rightarrow> False);
          s2 = (case s1 of c # r \<Rightarrow> (if c = CHR ''-'' \<or> c = CHR ''+'' then r else s1) | [] \<Rightarrow> []);
          hex = (take 2 s2 = ''0x'' \<or> take 2 s2 = ''0X'');
          radix = (if hex then 16 else 10);
          ds = parse_digits radix (if hex then drop 2 s2 else s2)
      in if ds = [] then None
         else Some ((if neg then - 1 else 1) * int (foldl (\<lambda>a d. a * radix + d) 0 ds)))"

text \<open>
  Values of type \<open>any\<close>: the contexts of log entries and the untyped dictionaries of the
  inspection report. An object keeps its keys in insertion order.
\<close>

datatype json =
    JUndefined
  | JNull
  | JBool bool
  | JNum int
  | JStr string
  | JArr "json list"
  | JObj "(string \<times> json) list"

fun truthy :: "json \<Rightarrow> bool" where
  "truthy JUndefined = False"
| "truthy JNull = False"
| "truthy (JBool b) = b"
| "truthy (JNum n) = (n \<noteq> 0)"
| "truthy (JStr s) = (s \<noteq> [])"
| "truthy (JArr xs) = True"
| "truthy (JObj kvs) = True"

text \<open>\<open>context?.key\<close>: \<open>undefined\<close> when the context is nullish or has no such key.\<close>

fun field :: "json \<Rightarrow> string \<Rightarrow> json" where
  "field (JObj kvs) k = (case map_of kvs k of Some v \<Rightarrow> v | None \<Rightarrow> JUndefined)"
| "field _ k = JUndefined"

text \<open>An \<open>Error\<close> object, by its \<open>name\<close> and \<open>message\<close> (the engine's \<open>stack\<close> text is not modelled).\<close>

datatype jsError = Error (error_name: string) (message: string)

definition new_Error :: "string \<Rightarrow> jsError" where
  "new_Error msg = Error ''Error'' msg"

section \<open>ErrorInspector: suggestions from an inspection report\<close>

text \<open>
  An entry of \<open>report.elements\<close>, as \<open>inspectErrorElements\<close> stores it: an object
  \<open>{count, visible, text}\<close> under an error or loading selector, a bare boolean under an
  \<open>exists_\<close> key.
\<close>

datatype element_data =
    ElementInfo (info_count: nat) (info_visible: bool) (info_text: "string option")
  | Exists bool

fun data_visible :: "element_data \<Rightarrow> bool" where
  "data_visible (ElementInfo c v t) = v"
| "data_visible (Exists b) = False"

text \<open>\<open>${data.text}\<close> in a template literal.\<close>

fun data_text :: "element_data \<Rightarrow> string" where
  "data_text (ElementInfo c v (Some t)) = t"
| "data_text (ElementInfo c v None) = ''null''"
| "data_text (Exists b) = ''undefined''"

record network_entry =
  net_url :: string
  net_status :: int
  net_method :: string

text \<open>The fields of \<open>PageInspectionReport\<close> that the suggestion generator and the logger read.\<close>

record PageInspectionReport =
  url :: string
  title :: string
  network :: "network_entry list"
  elements :: "(string \<times> element_data) list"
  screenshot :: string
  jsErrors :: "string list option"
  loadState :: "(string \<times> json) list option"
  blockingElements :: "(string \<times> string) list option"

definition suggest_login :: string where
  "suggest_login = [CHR 0xEF, CHR 0xA3, CHR 0xBF, CHR 0xC3, CHR 0xBC, CHR 0xC3, CHR 0xAE, CHR 0xC3, CHR 0xAA]
     @ '' Login page detected - check credentials and form submission''"

definition suggest_404 :: string where
  "suggest_404 = [CHR 0xEF, CHR 0xA3, CHR 0xBF, CHR 0xC3, CHR 0xBC, CHR 0xC3, CHR 0xAE, CHR 0xC3, CHR 0xA7]
     @ '' 404 error detected - verify URL and routing''"

definition suggest_error_message :: "string \<Rightarrow> string" where
  "suggest_error_message text =
     [CHR 0xE2, CHR 0x80, CHR 0x9A, CHR 0xC3, CHR 0xB9, CHR 0xC3, CHR 0xA5]
     @ '' Error message found: '' @ [CHR 0x22] @ text @ [CHR 0x22]
     @ '' - check form validation or server response''"

definition suggest_loading :: string where
  "suggest_loading = [CHR 0xE2, CHR 0x80, CHR 0x9A, CHR 0xC3, CHR 0xA8, CHR 0xE2, CHR 0x89, CHR 0xA5]
     @ '' Loading indicator still visible - request may be stuck or taking too long''"

definition suggest_network :: string where
  "suggest_network = [CHR 0xEF, CHR 0xA3, CHR 0xBF, CHR 0xC3, CHR 0xBC, CHR 0xC3, CHR 0xA5, CHR 0xC3, CHR 0xAA]
     @ '' Network errors detected - check API endpoints and server connectivity''"

definition suggest_js_errors :: string where
  "suggest_js_errors =
     [CHR 0xE2, CHR 0x80, CHR 0x9A, CHR 0xC3, CHR 0xB6, CHR 0xE2, CHR 0x80, CHR 0xA0, CHR 0xC3, CHR 0x94,
      CHR 0xE2, CHR 0x88, CHR 0x8F, CHR 0xC3, CHR 0xA8]
     @ '' JavaScript errors detected - check browser console for details''"

definition suggest_blocking :: string where
  "suggest_blocking = [CHR 0xEF, CHR 0xA3, CHR 0xBF, CHR 0xC3, CHR 0xBC, CHR 0xC3, CHR 0xB6, CHR 0xC2, CHR 0xB4]
     @ '' Potentially blocking elements detected - check for modals or overlays''"

definition suggest_not_loaded :: string where
  "suggest_not_loaded =
     [CHR 0xE2, CHR 0x80, CHR 0x9A, CHR 0xC3, CHR 0xA8, CHR 0xC2, CHR 0xB1, CHR 0xC3, CHR 0x94,
      CHR 0xE2, CHR 0x88, CHR 0x8F, CHR 0xC3, CHR 0xA8]
     @ '' Page not fully loaded - consider waiting for load state or specific elements''"

definition fallback_suggestions :: "string list" where
  "fallback_suggestions =
     [[CHR 0xEF, CHR 0xA3, CHR 0xBF, CHR 0xC3, CHR 0xBC, CHR 0xC3, CHR 0xAE, CHR 0xC3, CHR 0xA7]
        @ '' Check element selectors - they may have changed'',
      [CHR 0xE2, CHR 0x80, CHR 0x9A, CHR 0xC3, CHR 0xA8, CHR 0xE2, CHR 0x88, CHR 0x9E]
        @ '' Consider adding explicit waits for dynamic content'',
      [CHR 0xEF, CHR 0xA3, CHR 0xBF, CHR 0xC3, CHR 0xBC, CHR 0xC3, CHR 0xAE, CHR 0xC3, CHR 0x91]
        @ '' Verify page navigation completed successfully'']"

text \<open>The two pushes of the \<open>Object.entries(report.elements).forEach\<close> callback, for one entry.\<close>

definition element_suggestions :: "string \<times> element_data \<Rightarrow> string list" where
  "element_suggestions entry =
     (case entry of (selector, data) \<Rightarrow>
        (if str_includes selector ''error'' \<and> data_visible data
         then [suggest_error_message (data_text data)] else [])
      @ (if str_includes selector ''loading'' \<and> data_visible data
         then [suggest_loading] else []))"

text \<open>The suggestions collected before the fallback test, in the order they are pushed.\<close>

definition pattern_suggestions :: "PageInspectionReport \<Rightarrow> string list" where
  "pattern_suggestions report =
     (if str_includes (url report) ''wp-login.php'' then [suggest_login] else [])
   @ (if str_includes (url report) ''404'' \<or> str_includes (toLowerCase (title report)) ''not found''
      then [suggest_404] else [])
   @ concat (map element_suggestions (elements report))
   @ (if list_ex (\<lambda>req. net_status req \<ge> 400) (network report) then [suggest_network] else [])
   @ (case jsErrors report of Some errs \<Rightarrow> (if length errs > 0 then [suggest_js_errors] else [])
      | None \<Rightarrow> [])
   @ (case blockingElements report of Some bs \<Rightarrow> (if length bs > 0 then [suggest_blocking] else [])
      | None \<Rightarrow> [])
   @ (case loadState report of
        Some ls \<Rightarrow> (if field (JObj ls) ''readyState'' \<noteq> JStr ''complete'' then [suggest_not_loaded] else [])
      | None \<Rightarrow> [])"

definition generateFailureSuggestions :: "PageInspectionReport \<Rightarrow> string list" where
  "generateFailureSuggestions report =
     (let suggestions = pattern_suggestions report
      in if length suggestions = 0 then suggestions @ fallback_suggestions else suggestions)"

section \<open>SmartLogger\<close>

datatype LogLevel = INFO | WARN | ERROR | DEBUG | ACTION | NAVIGATION | PASS | FAIL

datatype LogCategory =
  CAT_USER_ACTION | CAT_NAVIGATION | CAT_API | CAT_ASSERTION | CAT_TIMING | CAT_PERFORMANCE
  | CAT_ERROR | CAT_GENERAL

fun level_name :: "LogLevel \<Rightarrow> string" where
  "level_name INFO = ''INFO''"
| "level_name WARN = ''WARN''"
| "level_name ERROR = ''ERROR''"
| "level_name DEBUG = ''DEBUG''"
| "level_name ACTION = ''ACTION''"
| "level_name NAVIGATION = ''NAVIGATION''"
| "level_name PASS = ''PASS''"
| "level_name FAIL = ''FAIL''"

record LogEntry =
  log_id :: string
  timestamp :: string
  level :: LogLevel
  log_message :: string
  testName :: string
  log_context :: json
  category :: LogCategory
  tags :: "string list"

text \<open>
  The static state of the class: the buffer and the active test. \<open>stamps n\<close> is the pair of
  \<open>generateLogId()\<close> and \<open>new Date().toISOString()\<close> that the clock and the random generator
  give the \<open>n\<close>-th call of \<open>log\<close>; \<open>issued\<close> counts the calls so far.
\<close>

record SmartLogger =
  logs :: "LogEntry list"
  currentTest :: string
  stamps :: "nat \<Rightarrow> string \<times> string"
  issued :: nat

definition categorizeLog :: "string \<Rightarrow> LogLevel \<Rightarrow> LogCategory" where
  "categorizeLog msg0 lvl =
     (let msg = toLowerCase msg0 in
      if str_includes msg ''click'' \<or> str_includes msg ''type'' \<or> str_includes msg ''select''
        then CAT_USER_ACTION
      else if str_includes msg ''navigate'' \<or> str_includes msg ''page'' \<or> str_includes msg ''url''
        then CAT_NAVIGATION
      else if str_includes msg ''api'' \<or> str_includes msg ''request'' \<or> str_includes msg ''response''
        then CAT_API
      else if str_includes msg ''assert'' \<or> str_includes msg ''expect'' \<or> str_includes msg ''verify''
        then CAT_ASSERTION
      else if str_includes msg ''wait'' \<or> str_includes msg ''timeout'' then CAT_TIMING
      else if str_includes msg ''performance'' \<or> str_includes msg ''load'' \<or> str_includes msg ''speed''
        then CAT_PERFORMANCE
      else if lvl = ERROR \<or> lvl = FAIL then CAT_ERROR
      else CAT_GENERAL)"

definition generateTags :: "string \<Rightarrow> LogLevel \<Rightarrow> json \<Rightarrow> string list" where
  "generateTags msg lvl ctx =
     [toLowerCase (level_name lvl)]
     @ (if truthy (field ctx ''element'') then [''element-interaction''] else [])
     @ (if truthy (field ctx ''api'') then [''api-call''] else [])
     @ (if truthy (field ctx ''performance'') then [''performance''] else [])
     @ (if truthy (field ctx ''suggestions'') then [''auto-diagnosed''] else [])
     @ (if str_includes msg ''screenshot'' then [''visual''] else [])"

text \<open>
  \<open>log(level, message, context?)\<close>; an absent context is \<open>JUndefined\<close>. The console echo of
  the entry changes no state and is left out.
\<close>

definition log :: "LogLevel \<Rightarrow> string \<Rightarrow> json \<Rightarrow> SmartLogger \<Rightarrow> SmartLogger" where
  "log lvl msg ctx lg =
     (let entry = \<lparr> log_id = fst (stamps lg (issued lg)),
                     timestamp = snd (stamps lg (issued lg)),
                     level = lvl,
                     log_message = msg,
                     testName = currentTest lg,
                     log_context = (if truthy ctx then ctx else JObj []),
                     category = categorizeLog msg lvl,
                     tags = generateTags msg lvl ctx \<rparr>
      in lg\<lparr> logs := logs lg @ [entry], issued := Suc (issued lg) \<rparr>)"

definition initializeTest :: "string \<Rightarrow> SmartLogger \<Rightarrow> SmartLogger" where
  "initializeTest test lg =
     log INFO ''Test started'' (JObj [(''testName'', JStr test)]) (lg\<lparr> currentTest := test \<rparr>)"

definition getCurrentStepNumber :: "SmartLogger \<Rightarrow> int" where
  "getCurrentStepNumber lg =
     int (length (filter (\<lambda>l. testName l = currentTest lg \<and> level l = ACTION) (logs lg))) + 1"

definition sanitizeValue :: "string \<Rightarrow> string" where
  "sanitizeValue v =
     (if str_includes (toLowerCase v) ''password'' \<or> length v > 6
      then replicate (length v) (CHR ''*'') else v)"

text \<open>\<open>logUserAction(action, element?, value?)\<close>; an omitted argument is \<open>None\<close>.\<close>

definition logUserAction :: "string \<Rightarrow> string option \<Rightarrow> string option \<Rightarrow> SmartLogger \<Rightarrow> SmartLogger" where
  "logUserAction action element v lg =
     log ACTION (''User '' @ action)
       (JObj [(''element'', (case element of Some e \<Rightarrow> JStr e | None \<Rightarrow> JUndefined)),
              (''value'', (case v of Some x \<Rightarrow> (if x \<noteq> [] then JStr (sanitizeValue x) else JUndefined)
                                  | None \<Rightarrow> JUndefined)),
              (''step'', JNum (getCurrentStepNumber lg))])
       lg"

text \<open>
  \<open>logError(error, page?, autoInspect)\<close>. \<open>inspection\<close> is \<open>None\<close> when no page is given or
  \<open>autoInspect\<close> is off, and otherwise what \<open>inspectPageOnError(error.message)\<close> answers.
  The \<open>stack\<close> key of the context is left out with the stack itself.
\<close>

definition logError :: "jsError \<Rightarrow> (jsError + PageInspectionReport) option \<Rightarrow> SmartLogger \<Rightarrow> SmartLogger" where
  "logError error inspection lg =
     (let errorContext = [(''name'', JStr (error_name error)),
                          (''message'', JStr (message error)),
                          (''testName'', JStr (currentTest lg))];
          inspected =
            (case inspection of
               None \<Rightarrow> []
             | Some (Inl inspectionError) \<Rightarrow> [(''inspectionError'', JStr (message inspectionError))]
             | Some (Inr pageInspection) \<Rightarrow>
                 [(''suggestions'', JArr (map JStr (generateFailureSuggestions pageInspection))),
                  (''pageInspection'',
                     JObj [(''url'', JStr (url pageInspection)),
                           (''title'', JStr (title pageInspection)),
                           (''screenshot'', JStr (screenshot pageInspection)),
                           (''errorElements'',
                              JArr (map (\<lambda>kv. JStr (fst kv))
                                (filter (\<lambda>kv. str_includes (fst kv) ''error'' \<and> data_visible (snd kv))
                                   (elements pageInspection)))),
                           (''blockingElements'',
                              JNum (case blockingElements pageInspection of
                                      Some bs \<Rightarrow> int (length bs) | None \<Rightarrow> 0))])])
      in log ERROR (message error) (JObj (errorContext @ inspected)) lg)"

record TimelineEntry =
  tl_timestamp :: string
  tl_message :: string
  tl_level :: LogLevel
  tl_category :: LogCategory
  tl_duration :: int

text \<open>
  The summary of the performance entries. \<open>averageTime\<close>, \<open>slowestOperation\<close> and
  \<open>fastestOperation\<close> are floating-point aggregates of the measured values; the model keeps
  the values they are computed from.
\<close>

record PerformanceSummary =
  totalMeasurements :: nat
  measuredValues :: "json list"
  timeouts :: nat

record TestSummary =
  sum_testName :: string
  totalLogs :: nat
  logsByLevel :: "(LogLevel \<times> nat) list"
  logsByCategory :: "(LogCategory \<times> nat) list"
  timeline :: "TimelineEntry list"
  insights :: "string list"
  suggestions :: "json list"
  performance :: PerformanceSummary
  errors :: "LogEntry list"
  warnings :: "LogEntry list"

text \<open>\<open>acc[k] = (acc[k] || 0) + 1\<close> on a dictionary in insertion order.\<close>

definition bump :: "'k \<Rightarrow> ('k \<times> nat) list \<Rightarrow> ('k \<times> nat) list" where
  "bump k acc =
     (if k \<in> fst ` set acc then map (\<lambda>(k', n). if k' = k then (k', n + 1) else (k', n)) acc
      else acc @ [(k, 1)])"

definition groupLogsByLevel :: "LogEntry list \<Rightarrow> (LogLevel \<times> nat) list" where
  "groupLogsByLevel ls = foldl (\<lambda>acc l. bump (level l) acc) [] ls"

definition groupLogsByCategory :: "LogEntry list \<Rightarrow> (LogCategory \<times> nat) list" where
  "groupLogsByCategory ls = foldl (\<lambda>acc l. bump (category l) acc) [] ls"

definition generateTimeline :: "LogEntry list \<Rightarrow> TimelineEntry list" where
  "generateTimeline ls =
     map (\<lambda>l. \<lparr> tl_timestamp = timestamp l, tl_message = log_message l, tl_level = level l,
                tl_category = category l, tl_duration = 0 \<rparr>) ls"

definition generateInsights :: "LogEntry list \<Rightarrow> string list" where
  "generateInsights ls =
     (let errs = filter (\<lambda>l. level l = ERROR) ls;
          warns = filter (\<lambda>l. level l = WARN) ls;
          actions = filter (\<lambda>l. level l = ACTION) ls
      in (if length errs > 0
          then [''Test encountered '' @ show_nat (length errs) @ '' error(s) - review error logs for details'']
          else [])
       @ (if length warns > 3
          then [''High number of warnings ('' @ show_nat (length warns)
                @ '') - may indicate unstable test conditions'']
          else [])
       @ (if length actions > 20
          then [''Complex test with '' @ show_nat (length actions)
                @ '' user actions - consider breaking into smaller tests'']
          else []))"

text \<open>
  \<open>suggestions.push(...log.context.suggestions)\<close>: an array or a string spreads; any other
  truthy value is not iterable and the spread throws a \<open>TypeError\<close>.
\<close>

fun spread :: "json \<Rightarrow> jsError + json list" where
  "spread (JArr xs) = Inr xs"
| "spread (JStr s) = Inr (map (\<lambda>c. JStr [c]) s)"
| "spread v = Inl (Error ''TypeError'' ''Spread syntax requires ...iterable[Symbol.iterator] to be a function'')"

fun spread_all :: "json list \<Rightarrow> jsError + json list" where
  "spread_all [] = Inr []"
| "spread_all (v # vs) =
     (case spread v of Inl e \<Rightarrow> Inl e
      | Inr xs \<Rightarrow> (case spread_all vs of Inl e \<Rightarrow> Inl e | Inr ys \<Rightarrow> Inr (xs @ ys)))"

text \<open>
  \<open>Array.from(new Set(xs))\<close>: the first occurrence of each value, in order. Values are
  compared by structure, which is how a \<open>Set\<close> compares strings and the other primitives;
  that it compares objects and arrays by identity is not modelled.
\<close>

fun dedupe :: "'a list \<Rightarrow> 'a list" where
  "dedupe [] = []"
| "dedupe (x # xs) = x # dedupe (filter (\<lambda>y. y \<noteq> x) xs)"

definition generateSuggestions :: "LogEntry list \<Rightarrow> jsError + json list" where
  "generateSuggestions ls =
     (case spread_all (map (\<lambda>l. field (log_context l) ''suggestions'')
                          (filter (\<lambda>l. truthy (field (log_context l) ''suggestions'')) ls)) of
        Inl e \<Rightarrow> Inl e
      | Inr xs \<Rightarrow> Inr (dedupe xs))"

definition summarizePerformance :: "LogEntry list \<Rightarrow> PerformanceSummary" where
  "summarizePerformance ls =
     (let perfLogs = filter (\<lambda>l. category l = CAT_PERFORMANCE) ls
      in \<lparr> totalMeasurements = length perfLogs,
           measuredValues = map (\<lambda>l. let v = field (log_context l) ''value''
                                      in if truthy v then v else JNum 0) perfLogs,
           timeouts = length (filter (\<lambda>l. str_includes (log_message l) ''timeout'') ls) \<rparr>)"

definition generateTestSummary :: "SmartLogger \<Rightarrow> jsError + TestSummary" where
  "generateTestSummary lg =
     (let testLogs = filter (\<lambda>l. testName l = currentTest lg) (logs lg)
      in case generateSuggestions testLogs of
           Inl e \<Rightarrow> Inl e
         | Inr sugg \<Rightarrow>
             Inr \<lparr> sum_testName = currentTest lg,
                   totalLogs = length testLogs,
                   logsByLevel = groupLogsByLevel testLogs,
                   logsByCategory = groupLogsByCategory testLogs,
                   timeline = generateTimeline testLogs,
                   insights = generateInsights testLogs,
                   suggestions = sugg,
                   performance = summarizePerformance testLogs,
                   errors = filter (\<lambda>l. level l = ERROR) testLogs,
                   warnings = filter (\<lambda>l. level l = WARN) testLogs \<rparr>)"

text \<open>
  The content of an attachment is kept as the value that is rendered into it: the text
  produced by \<open>JSON.stringify\<close> and by the HTML, step and report templates is a rendering of
  exactly this value.
\<close>

datatype AttachmentContent =
    LogsJson "LogEntry list"
  | SummaryJson TestSummary
  | TimelineHTML "TimelineEntry list"
  | ActionSteps "LogEntry list"
  | ErrorAnalysis "LogEntry list"
  | PerformanceReport PerformanceSummary

record AllureAttachment =
  att_name :: string
  content :: AttachmentContent
  att_type :: string

text \<open>
  \<open>generateErrorAnalysis\<close> calls \<open>suggestions.map\<close> and \<open>stack?.join\<close> on the context of each
  error entry; either throws a \<open>TypeError\<close> on a value that is not an array. Of that error
  only the name is modelled; its message, which names the call that failed, is shortened.
\<close>

fun is_array :: "json \<Rightarrow> bool" where
  "is_array (JArr xs) = True"
| "is_array v = False"

definition analysable :: "LogEntry \<Rightarrow> bool" where
  "analysable l =
     ((let s = field (log_context l) ''suggestions'' in \<not> truthy s \<or> is_array s)
      \<and> (let st = field (log_context l) ''stack'' in st = JUndefined \<or> st = JNull \<or> is_array st))"

definition generateErrorAnalysis :: "LogEntry list \<Rightarrow> jsError + AttachmentContent" where
  "generateErrorAnalysis errs =
     (if list_all analysable errs then Inr (ErrorAnalysis errs)
      else Inl (Error ''TypeError'' ''not a function''))"

definition generateActionSteps :: "SmartLogger \<Rightarrow> AttachmentContent" where
  "generateActionSteps lg = ActionSteps (filter (\<lambda>l. level l = ACTION) (logs lg))"

definition exportForReporting :: "SmartLogger \<Rightarrow> jsError + AllureAttachment list" where
  "exportForReporting lg =
     (let attachments1 =
            [\<lparr> att_name = [CHR 0xF0, CHR 0x9F, CHR 0x93, CHR 0x8B] @ '' Detailed Test Logs'',
                content = LogsJson (logs lg),
                att_type = ''application/json'' \<rparr>]
      in case generateTestSummary lg of
           Inl e \<Rightarrow> Inl e
         | Inr summary \<Rightarrow>
            (let attachments4 = attachments1 @
                   [\<lparr> att_name = [CHR 0xF0, CHR 0x9F, CHR 0x93, CHR 0x8A] @ '' Test Execution Summary'',
                       content = SummaryJson summary,
                       att_type = ''application/json'' \<rparr>,
                    \<lparr> att_name = [CHR 0xE2, CHR 0x8F, CHR 0xB1, CHR 0xEF, CHR 0xB8, CHR 0x8F]
                                    @ '' Test Timeline Visualization'',
                       content = TimelineHTML (timeline summary),
                       att_type = ''text/html'' \<rparr>,
                    \<lparr> att_name = [CHR 0xF0, CHR 0x9F, CHR 0x91, CHR 0x86] @ '' User Actions Log'',
                       content = generateActionSteps lg,
                       att_type = ''text/plain'' \<rparr>];
                 perfAttachment =
                   (if totalMeasurements (performance summary) > 0
                    then [\<lparr> att_name = [CHR 0xE2, CHR 0x9A, CHR 0xA1] @ '' Performance Metrics'',
                             content = PerformanceReport (performance summary),
                             att_type = ''text/plain'' \<rparr>]
                    else [])
             in if length (errors summary) > 0
                then (case generateErrorAnalysis (errors summary) of
                        Inl e \<Rightarrow> Inl e
                      | Inr errorAnalysis \<Rightarrow>
                          Inr (attachments4 @
                               [\<lparr> att_name = [CHR 0xF0, CHR 0x9F, CHR 0x94, CHR 0x8D]
                                               @ '' Error Analysis & Suggestions'',
                                   content = errorAnalysis,
                                   att_type = ''text/markdown'' \<rparr>]
                               @ perfAttachment))
                else Inr (attachments4 @ perfAttachment)))"

definition clearTestLogs :: "SmartLogger \<Rightarrow> SmartLogger" where
  "clearTestLogs lg = lg\<lparr> logs := filter (\<lambda>l. testName l \<noteq> currentTest lg) (logs lg) \<rparr>"

section \<open>ElementHelper: configuration and utilities\<close>

text \<open>
  The variables of \<open>process.env\<close> that the layer depends on (\<open>None\<close> for an unset
  variable), and the two numbers of \<open>EnvironmentManager.loadConfiguration\<close> that the static
  initialisers read.
\<close>

record Environment =
  TEST_TIMEOUT :: "string option"
  TEST_RETRIES :: "string option"
  DETAILED_HEALTH_CHECKS :: "string option"
  PERFORMANCE_MONITORING :: "string option"
  VALUE_VERIFICATION :: "string option"

record EnvironmentConfig =
  cfg_timeout :: "int option"
  cfg_retries :: "int option"

text \<open>\<open>process.env.X || d\<close>: an unset or empty variable gives the default text.\<close>

definition env_or :: "string option \<Rightarrow> string \<Rightarrow> string" where
  "env_or x d = (case x of Some s \<Rightarrow> (if s \<noteq> [] then s else d) | None \<Rightarrow> d)"

definition loadConfiguration :: "Environment \<Rightarrow> EnvironmentConfig" where
  "loadConfiguration env =
     \<lparr> cfg_timeout = parseInt (env_or (TEST_TIMEOUT env) ''30000''),
       cfg_retries = parseInt (env_or (TEST_RETRIES env) ''1'') \<rparr>"

record Config =
  DEFAULT_TIMEOUT :: int
  MAX_RETRIES :: int
  ENABLE_HEALTH_CHECKS :: bool
  ENABLE_PERFORMANCE_MONITORING :: bool
  ENABLE_VALUE_VERIFICATION :: bool

text \<open>\<open>x || d\<close> on a number: \<open>0\<close> and \<open>NaN\<close> give the default.\<close>

definition or_default :: "int option \<Rightarrow> int \<Rightarrow> int" where
  "or_default x d = (case x of Some n \<Rightarrow> (if n \<noteq> 0 then n else d) | None \<Rightarrow> d)"

definition static_config :: "Environment \<Rightarrow> Config" where
  "static_config env =
     \<lparr> DEFAULT_TIMEOUT = or_default (cfg_timeout (loadConfiguration env)) 10000,
       MAX_RETRIES = or_default (cfg_retries (loadConfiguration env)) 3,
       ENABLE_HEALTH_CHECKS = (DETAILED_HEALTH_CHECKS env = Some ''true''),
       ENABLE_PERFORMANCE_MONITORING = (PERFORMANCE_MONITORING env \<noteq> Some ''false''),
       ENABLE_VALUE_VERIFICATION = (VALUE_VERIFICATION env = Some ''true'') \<rparr>"

definition SHORT_TIMEOUT :: "Config \<Rightarrow> int" where
  "SHORT_TIMEOUT cfg = DEFAULT_TIMEOUT cfg div 2"

definition ANIMATION_DELAY :: int where
  "ANIMATION_DELAY = 100"

definition BASE_RETRY_DELAY :: int where
  "BASE_RETRY_DELAY = 500"

definition ELEMENT_NOT_VISIBLE :: string where
  "ELEMENT_NOT_VISIBLE = ''Element not visible''"

definition INVALID_PARAMETER :: string where
  "INVALID_PARAMETER = ''Invalid parameter provided''"

text \<open>
  What the driver answers on a locator. A call that resolves to nothing answers
  \<open>None\<close> when it succeeds and \<open>Some e\<close> when it rejects with \<open>e\<close>.
\<close>

datatype wait_state = Visible | Attached

record Locator =
  loc_waitFor :: "wait_state \<Rightarrow> int \<Rightarrow> jsError option"
  loc_count :: "jsError + nat"
  loc_isVisible :: "jsError + bool"
  loc_isEnabled :: "jsError + bool"
  loc_toBeEnabled :: "int \<Rightarrow> jsError option"
  loc_notToBeEmpty :: "int \<Rightarrow> jsError option"
  loc_textContent :: "int \<Rightarrow> jsError + string option"
  loc_inputValue :: "jsError + string"
  loc_getAttribute :: "string \<Rightarrow> jsError + string option"
  loc_fill :: "string \<Rightarrow> jsError option"

text \<open>A \<open>Locator\<close> object handed in by the caller: its \<open>nth\<close> and its \<open>toString()\<close>.\<close>

record LocatorObj =
  lo_nth :: "int \<Rightarrow> Locator"
  lo_toString :: string

datatype 'l ElementRef = Selector string | LocatorObject 'l

record Page =
  pg_locator :: "string \<Rightarrow> int \<Rightarrow> Locator"
  pg_inspect :: "string \<Rightarrow> jsError + PageInspectionReport"

definition createLocator :: "Page \<Rightarrow> LocatorObj ElementRef \<Rightarrow> int \<Rightarrow> Locator" where
  "createLocator page element index =
     (case element of Selector s \<Rightarrow> pg_locator page s index
                    | LocatorObject l \<Rightarrow> lo_nth l index)"

text \<open>
  \<open>validateParams\<close>, on the entries of the object literal in their order; an object argument
  (the page, a locator) is passed as \<open>JObj []\<close>.
\<close>

fun validateParams :: "(string \<times> json) list \<Rightarrow> jsError option" where
  "validateParams [] = None"
| "validateParams ((key, v) # rest) =
     (if v = JNull \<or> v = JUndefined
      then Some (new_Error (INVALID_PARAMETER @ '': '' @ key @ '' cannot be null or undefined''))
      else if str_includes key ''timeout'' \<and> (case v of JNum n \<Rightarrow> n < 0 | _ \<Rightarrow> False)
      then Some (new_Error (INVALID_PARAMETER @ '': '' @ key @ '' must be positive''))
      else if str_includes key ''index'' \<and> (case v of JNum n \<Rightarrow> n < 0 | _ \<Rightarrow> False)
      then Some (new_Error (INVALID_PARAMETER @ '': '' @ key @ '' must be non-negative''))
      else validateParams rest)"

fun element_arg :: "'l ElementRef \<Rightarrow> json" where
  "element_arg (Selector s) = JStr s"
| "element_arg (LocatorObject l) = JObj []"

fun elementDesc :: "'l ElementRef \<Rightarrow> string" where
  "elementDesc (Selector s) = ''selector '' @ [CHR 0x22] @ s @ [CHR 0x22]"
| "elementDesc (LocatorObject l) = ''Locator object''"

definition createErrorMessage :: "string \<Rightarrow> 'l ElementRef \<Rightarrow> string \<Rightarrow> string" where
  "createErrorMessage operation element error =
     operation @ '' failed for '' @ elementDesc element @ (if error \<noteq> [] then '': '' @ error else [])"

section \<open>ElementHelper: the retry engine\<close>

definition unrecoverablePatterns :: "string list" where
  "unrecoverablePatterns =
     [''Element not found'',
      ''page has been closed'',
      ''context has been closed'',
      ''browser has been closed'',
      ''Navigation failed'',
      ''net::ERR_NAME_NOT_RESOLVED'',
      ''net::ERR_CONNECTION_REFUSED'']"

definition isUnrecoverableError :: "jsError \<Rightarrow> bool" where
  "isUnrecoverableError error =
     list_ex (\<lambda>pattern. str_includes (toLowerCase (message error)) (toLowerCase pattern))
       unrecoverablePatterns"

text \<open>
  What \<open>retryOperation\<close> itself does besides logging: it invokes the operation (attempt number
  and what the invocation threw, \<open>None\<close> for a normal return) and it awaits a timer.
\<close>

datatype retry_event = Invoked int "jsError option" | Slept int

text \<open>
  The readings of \<open>performance.now()\<close> that reach a log entry, by the attempt at which they
  are taken: \<open>totalTime.toFixed(2)\<close>, \<open>attemptTime.toFixed(2)\<close> and \<open>totalTime > 1000\<close>.
\<close>

record PerfClock =
  totalTime_fixed :: "int \<Rightarrow> string"
  attemptTime_fixed :: "int \<Rightarrow> string"
  totalTime_over_1000 :: "int \<Rightarrow> bool"

definition retry_delay :: "int \<Rightarrow> int \<Rightarrow> int" where
  "retry_delay baseDelay attempt = (if attempt = 1 then 100 else baseDelay * 2 ^ nat (attempt - 2))"

text \<open>
  The loop of \<open>retryOperation\<close>, from \<open>attempt\<close> on. The operation is given by what its
  \<open>k\<close>-th invocation does to the logger and returns or throws. The thrown value of the
  function is \<open>Some e\<close> for an error object and \<open>None\<close> for \<open>undefined\<close>, the value of
  \<open>lastError\<close> when the loop body never ran.
\<close>

function retryLoop ::
  "Config \<Rightarrow> PerfClock \<Rightarrow> (int \<Rightarrow> SmartLogger \<Rightarrow> (jsError + 'a) \<times> SmartLogger) \<Rightarrow> string \<Rightarrow> int \<Rightarrow> int
   \<Rightarrow> int \<Rightarrow> jsError option \<Rightarrow> retry_event list \<Rightarrow> SmartLogger
   \<Rightarrow> (jsError option + 'a) \<times> retry_event list \<times> SmartLogger" where
  "retryLoop cfg clk operation operationName maxRetries baseDelay attempt lastError evs lg =
     (if attempt \<le> maxRetries then
        (case operation attempt lg of
           (Inr result, lg1) \<Rightarrow>
             (Inr result, evs @ [Invoked attempt None],
              if ENABLE_PERFORMANCE_MONITORING cfg \<and> (attempt > 1 \<or> totalTime_over_1000 clk attempt)
              then log INFO
                     (operationName @ '' completed (''
                        @ (if attempt > 1 then ''with retries'' else ''slow operation'') @ '')'')
                     (JObj [(''operation'', JStr operationName),
                            (''totalTime'', JStr (totalTime_fixed clk attempt @ ''ms'')),
                            (''attempts'', JNum attempt),
                            (''attemptTime'', JStr (attemptTime_fixed clk attempt @ ''ms'')),
                            (''success'', JBool True)])
                     lg1
              else lg1)
         | (Inl error, lg1) \<Rightarrow>
             if isUnrecoverableError error then
               (Inl (Some error), evs @ [Invoked attempt (Some error)],
                log ERROR (operationName @ '' failed (unrecoverable): '' @ message error) JUndefined lg1)
             else if attempt = maxRetries then
               (Inl (Some error), evs @ [Invoked attempt (Some error)],
                if ENABLE_PERFORMANCE_MONITORING cfg
                then log ERROR
                       (operationName @ '' failed after '' @ show_int maxRetries @ '' attempts in ''
                          @ totalTime_fixed clk attempt @ ''ms: '' @ message error)
                       JUndefined lg1
                else log ERROR
                       (operationName @ '' failed after '' @ show_int maxRetries @ '' attempts: ''
                          @ message error)
                       JUndefined lg1)
             else
               retryLoop cfg clk operation operationName maxRetries baseDelay (attempt + 1) (Some error)
                 (evs @ [Invoked attempt (Some error), Slept (retry_delay baseDelay attempt)])
                 (log WARN
                    (operationName @ '' attempt '' @ show_int attempt @ '' failed, retrying in ''
                       @ show_int (retry_delay baseDelay attempt) @ ''ms'')
                    JUndefined lg1))
      else (Inl lastError, evs, lg))"
  by pat_completeness auto
termination
  by (relation "measure (\<lambda>(cfg, clk, operation, operationName, maxRetries, baseDelay, attempt,
                           lastError, evs, lg). nat (maxRetries - attempt))") auto

declare retryLoop.simps [simp del]

definition retryOperation ::
  "Config \<Rightarrow> PerfClock \<Rightarrow> (int \<Rightarrow> SmartLogger \<Rightarrow> (jsError + 'a) \<times> SmartLogger) \<Rightarrow> string \<Rightarrow> int \<Rightarrow> int
   \<Rightarrow> SmartLogger \<Rightarrow> (jsError option + 'a) \<times> retry_event list \<times> SmartLogger" where
  "retryOperation cfg clk operation operationName maxRetries baseDelay lg =
     retryLoop cfg clk operation operationName maxRetries baseDelay 1 None [] lg"


text \<open>Reading a trace: the attempts that invoked the operation, and the timers awaited.\<close>

definition invocations :: "retry_event list \<Rightarrow> int list" where
  "invocations evs = concat (map (\<lambda>ev. case ev of Invoked k r \<Rightarrow> [k] | Slept d \<Rightarrow> []) evs)"

definition delays :: "retry_event list \<Rightarrow> int list" where
  "delays evs = concat (map (\<lambda>ev. case ev of Invoked k r \<Rightarrow> [] | Slept d \<Rightarrow> [d]) evs)"

text \<open>What attempt \<open>k\<close> of an operation that fails recoverably with \<open>err k\<close> adds to the trace.\<close>

definition failing_trace :: "(int \<Rightarrow> jsError) \<Rightarrow> int \<Rightarrow> int \<Rightarrow> int \<Rightarrow> retry_event list" where
  "failing_trace err maxRetries baseDelay k =
     Invoked k (Some (err k)) # (if k < maxRetries then [Slept (retry_delay baseDelay k)] else [])"

section \<open>ElementHelper: smart wait and health check\<close>

text \<open>The \<open>conditions\<close> argument; an omitted key is \<open>None\<close>.\<close>

record WaitConditions =
  visible :: "bool option"
  stable :: "bool option"
  enabled :: "bool option"
  hasText :: "bool option"

datatype wait_step =
  AwaitVisible int | SettleDelay int | ExpectEnabled int | ExpectNotEmpty int

definition or_else :: "bool option \<Rightarrow> bool \<Rightarrow> bool" where
  "or_else x d = (case x of Some b \<Rightarrow> b | None \<Rightarrow> d)"

text \<open>
  \<open>smartWaitForElement\<close>: what it throws, if anything, and the steps it took in order.
\<close>

definition smartWaitForElement ::
  "Config \<Rightarrow> Locator \<Rightarrow> WaitConditions \<Rightarrow> int \<Rightarrow> jsError option \<times> wait_step list" where
  "smartWaitForElement cfg elementLocator conditions timeout =
     (let visible' = or_else (visible conditions) True;
          stable' = or_else (stable conditions) False;
          enabled' = or_else (enabled conditions) False;
          hasText' = or_else (hasText conditions) False;
          steps1 = (if visible' then [AwaitVisible timeout] else [])
      in case (if visible' then loc_waitFor elementLocator Visible timeout else None) of
           Some e \<Rightarrow> (Some e, steps1)
         | None \<Rightarrow>
            (let steps2 = steps1 @
                   (if stable' \<and> (ENABLE_HEALTH_CHECKS cfg \<or> stable conditions = Some True)
                    then [SettleDelay ANIMATION_DELAY] else []);
                 steps3 = steps2 @ (if enabled' then [ExpectEnabled (SHORT_TIMEOUT cfg)] else [])
             in case (if enabled' then loc_toBeEnabled elementLocator (SHORT_TIMEOUT cfg) else None) of
                  Some e \<Rightarrow> (Some e, steps3)
                | None \<Rightarrow>
                    (if hasText'
                     then (loc_notToBeEmpty elementLocator (SHORT_TIMEOUT cfg),
                           steps3 @ [ExpectNotEmpty (SHORT_TIMEOUT cfg)])
                     else (None, steps3))))"

datatype OperationType = OpClick | OpFill | OpRead

record HealthReport =
  healthy :: bool
  issues :: "string list"

datatype probe = Count | IsVisible | IsEnabled

text \<open>The template \<open>Multiple elements found (${count}), using first one\<close>.\<close>

definition multiple_note :: "nat \<Rightarrow> string" where
  "multiple_note count = ''Multiple elements found ('' @ show_nat count @ ''), using first one''"

text \<open>The report of the final \<open>return\<close> of the \<open>try\<close> block, from the issues pushed so far.\<close>

definition health_of :: "string list \<Rightarrow> HealthReport" where
  "health_of found =
     \<lparr> healthy = (length (filter (\<lambda>issue. \<not> str_includes issue ''Multiple elements'') found) = 0),
       issues = found \<rparr>"

text \<open>
  The \<open>try\<close> block of \<open>checkElementHealth\<close>: the report it returns or the error that escapes
  it, and the driver calls it made.
\<close>

definition inspectElement :: "Locator \<Rightarrow> OperationType \<Rightarrow> (jsError + HealthReport) \<times> probe list" where
  "inspectElement elementLocator operationType =
     (case loc_count elementLocator of
        Inl e \<Rightarrow> (Inl e, [Count])
      | Inr count \<Rightarrow>
          if count = 0 then (Inr \<lparr> healthy = False, issues = [''Element not found in DOM''] \<rparr>, [Count])
          else
            (let issues1 = (if count > 1 then [multiple_note count] else [])
             in case loc_isVisible elementLocator of
                  Inl e \<Rightarrow> (Inl e, [Count, IsVisible])
                | Inr isVisible \<Rightarrow>
                    (let issues2 = issues1 @ (if \<not> isVisible then [''Element is not visible''] else [])
                     in if (operationType = OpClick \<or> operationType = OpFill) \<and> isVisible
                        then (case loc_isEnabled elementLocator of
                                Inl e \<Rightarrow> (Inl e, [Count, IsVisible, IsEnabled])
                              | Inr isEnabled \<Rightarrow>
                                  (Inr (health_of
                                          (issues2 @ (if \<not> isEnabled then [''Element is disabled''] else []))),
                                   [Count, IsVisible, IsEnabled]))
                        else (Inr (health_of issues2), [Count, IsVisible]))))"

definition checkElementHealth ::
  "Config \<Rightarrow> Locator \<Rightarrow> OperationType \<Rightarrow> (jsError + HealthReport) \<times> probe list" where
  "checkElementHealth cfg elementLocator operationType =
     (if \<not> ENABLE_HEALTH_CHECKS cfg then (Inr \<lparr> healthy = True, issues = [] \<rparr>, [])
      else (case inspectElement elementLocator operationType of
              (Inr report, probes) \<Rightarrow> (Inr report, probes)
            | (Inl error, probes) \<Rightarrow>
                (Inr \<lparr> healthy = True, issues = [''Health check skipped: '' @ message error] \<rparr>, probes)))"

section \<open>ElementHelper: reading\<close>

definition getElementText :: "Page \<Rightarrow> LocatorObj ElementRef \<Rightarrow> int \<Rightarrow> int \<Rightarrow> jsError + string" where
  "getElementText page element index timeout =
     (case validateParams [(''page'', JObj []), (''element'', element_arg element),
                           (''index'', JNum index), (''timeout'', JNum timeout)] of
        Some e \<Rightarrow> Inl e
      | None \<Rightarrow>
          (case (let locator = createLocator page element index
                 in case loc_waitFor locator Visible timeout of
                      Some e \<Rightarrow> Inl e
                    | None \<Rightarrow>
                        (case loc_textContent locator timeout of
                           Inl e \<Rightarrow> Inl e
                         | Inr text \<Rightarrow>
                             Inr (trim (case text of Some t \<Rightarrow> (if t \<noteq> [] then t else [])
                                                   | None \<Rightarrow> [])))) of
             Inl error \<Rightarrow> Inl (new_Error (createErrorMessage ''Get text'' element (message error)))
           | Inr text \<Rightarrow> Inr text))"

definition getInputValue :: "Page \<Rightarrow> LocatorObj ElementRef \<Rightarrow> int \<Rightarrow> int \<Rightarrow> jsError + string" where
  "getInputValue page element index timeout =
     (case validateParams [(''page'', JObj []), (''element'', element_arg element),
                           (''index'', JNum index), (''timeout'', JNum timeout)] of
        Some e \<Rightarrow> Inl e
      | None \<Rightarrow>
          (case (let locator = createLocator page element index
                 in case loc_waitFor locator Visible timeout of
                      Some e \<Rightarrow> Inl e
                    | None \<Rightarrow>
                        (case loc_inputValue locator of
                           Inl e \<Rightarrow> Inl e
                         | Inr v \<Rightarrow> Inr (if v \<noteq> [] then v else []))) of
             Inl error \<Rightarrow> Inl (new_Error (createErrorMessage ''Get input value'' element (message error)))
           | Inr v \<Rightarrow> Inr v))"

definition getElementAttribute ::
  "Page \<Rightarrow> LocatorObj ElementRef \<Rightarrow> string \<Rightarrow> int \<Rightarrow> int \<Rightarrow> jsError + string" where
  "getElementAttribute page element attribute index timeout =
     (case validateParams [(''page'', JObj []), (''element'', element_arg element),
                           (''attribute'', JStr attribute),
                           (''index'', JNum index), (''timeout'', JNum timeout)] of
        Some e \<Rightarrow> Inl e
      | None \<Rightarrow>
          (case (let elementLocator = createLocator page element index
                 in case loc_waitFor elementLocator Attached timeout of
                      Some e \<Rightarrow> Inl e
                    | None \<Rightarrow>
                        (case loc_getAttribute elementLocator attribute of
                           Inl e \<Rightarrow> Inl e
                         | Inr v \<Rightarrow> Inr (case v of Some a \<Rightarrow> a | None \<Rightarrow> []))) of
             Inl error \<Rightarrow>
               Inl (new_Error (createErrorMessage
                                 (''Get attribute '' @ [CHR 0x22] @ attribute @ [CHR 0x22])
                                 element (message error)))
           | Inr v \<Rightarrow> Inr v))"

section \<open>ElementHelper: toggling a checkbox\<close>

text \<open>
  The element a locator resolves to, as far as \<open>toggleCheckbox\<close> can see and change it.
  \<open>cb_checked\<close> is \<open>None\<close> for an element that is neither a checkbox nor a radio button and
  so has no checked state. The four driver calls follow the driver's documentation:
  \<open>waitFor\<close> rejects on an element that does not become visible; \<open>isChecked\<close>, \<open>check\<close> and
  \<open>uncheck\<close> throw on an element without a checked state; \<open>check\<close> and \<open>uncheck\<close> return at
  once when the state is already the wanted one and otherwise click the element, which
  needs it visible and enabled, and leave it in the wanted state.
\<close>

record Checkbox =
  cb_visible :: bool
  cb_enabled :: bool
  cb_checked :: "bool option"

definition timeout_error :: jsError where
  "timeout_error = Error ''TimeoutError'' ''Timeout exceeded''"

definition not_checkbox_error :: jsError where
  "not_checkbox_error = Error ''Error'' ''Not a checkbox or radio button''"

definition pw_waitFor_visible :: "Checkbox \<Rightarrow> int \<Rightarrow> jsError option" where
  "pw_waitFor_visible cb timeout = (if cb_visible cb then None else Some timeout_error)"

definition pw_isChecked :: "Checkbox \<Rightarrow> jsError + bool" where
  "pw_isChecked cb = (case cb_checked cb of Some b \<Rightarrow> Inr b | None \<Rightarrow> Inl not_checkbox_error)"

definition pw_setChecked :: "bool \<Rightarrow> Checkbox \<Rightarrow> jsError + Checkbox" where
  "pw_setChecked wanted cb =
     (case cb_checked cb of
        None \<Rightarrow> Inl not_checkbox_error
      | Some b \<Rightarrow>
          if b = wanted then Inr cb
          else if cb_visible cb \<and> cb_enabled cb then Inr (cb\<lparr> cb_checked := Some wanted \<rparr>)
          else Inl timeout_error)"

definition pw_check :: "Checkbox \<Rightarrow> jsError + Checkbox" where
  "pw_check = pw_setChecked True"

definition pw_uncheck :: "Checkbox \<Rightarrow> jsError + Checkbox" where
  "pw_uncheck = pw_setChecked False"

text \<open>\<open>waitForDisplayed\<close> and \<open>isElementChecked\<close> on that element: both turn a throw into \<open>false\<close>.\<close>

definition waitForDisplayed :: "Checkbox \<Rightarrow> int \<Rightarrow> jsError + bool" where
  "waitForDisplayed cb timeout =
     (case validateParams [(''page'', JObj []), (''element'', JObj []), (''timeout'', JNum timeout)] of
        Some e \<Rightarrow> Inl e
      | None \<Rightarrow> (case pw_waitFor_visible cb timeout of None \<Rightarrow> Inr True | Some e \<Rightarrow> Inr False))"

definition isElementChecked :: "Checkbox \<Rightarrow> jsError + bool" where
  "isElementChecked cb =
     (case validateParams [(''page'', JObj []), (''element'', JObj []), (''index'', JNum 0)] of
        Some e \<Rightarrow> Inl e
      | None \<Rightarrow> (case pw_isChecked cb of Inr b \<Rightarrow> Inr b | Inl e \<Rightarrow> Inr False))"

definition toggleCheckbox :: "'l ElementRef \<Rightarrow> int \<Rightarrow> int \<Rightarrow> Checkbox \<Rightarrow> jsError + Checkbox" where
  "toggleCheckbox element index timeout cb =
     (case validateParams [(''page'', JObj []), (''element'', element_arg element),
                           (''index'', JNum index), (''timeout'', JNum timeout)] of
        Some e \<Rightarrow> Inl e
      | None \<Rightarrow>
          (case (case waitForDisplayed cb timeout of
                   Inl e \<Rightarrow> Inl e
                 | Inr isVisible \<Rightarrow>
                     if \<not> isVisible
                     then Inl (new_Error (ELEMENT_NOT_VISIBLE @ '' at index '' @ show_int index))
                     else (case isElementChecked cb of
                             Inl e \<Rightarrow> Inl e
                           | Inr isChecked \<Rightarrow> if isChecked then pw_uncheck cb else pw_check cb)) of
             Inl error \<Rightarrow> Inl (new_Error (createErrorMessage ''Toggle checkbox'' element (message error)))
           | Inr cb' \<Rightarrow> Inr cb'))"

section \<open>ElementHelper: entering a value\<close>

definition elementSelector :: "LocatorObj ElementRef \<Rightarrow> string" where
  "elementSelector element = (case element of Selector s \<Rightarrow> s | LocatorObject l \<Rightarrow> lo_toString l)"

text \<open>The closure that \<open>enterValue\<close> hands to \<open>retryOperation\<close>; every invocation runs the same code.\<close>

definition fillOperation ::
  "Config \<Rightarrow> Page \<Rightarrow> LocatorObj ElementRef \<Rightarrow> string \<Rightarrow> int \<Rightarrow> int
   \<Rightarrow> int \<Rightarrow> SmartLogger \<Rightarrow> (jsError + unit) \<times> SmartLogger" where
  "fillOperation cfg page element v index timeout k lg =
     (let elementLocator = createLocator page element index
      in case fst (smartWaitForElement cfg elementLocator
                     \<lparr> visible = Some True, stable = None, enabled = None, hasText = None \<rparr> timeout) of
           Some e \<Rightarrow> (Inl e, lg)
         | None \<Rightarrow>
             (case loc_fill elementLocator v of
                Some e \<Rightarrow> (Inl e, lg)
              | None \<Rightarrow>
                  if ENABLE_VALUE_VERIFICATION cfg then
                    (case loc_inputValue elementLocator of
                       Inl e \<Rightarrow> (Inl e, lg)
                     | Inr actualValue \<Rightarrow>
                         if actualValue \<noteq> v
                         then (Inl (new_Error (''Value verification failed. Expected: '' @ [CHR 0x22] @ v
                                      @ [CHR 0x22] @ '', Actual: '' @ [CHR 0x22] @ actualValue @ [CHR 0x22])),
                               lg)
                         else (Inr (),
                               log INFO (''Successfully filled '' @ elementSelector element
                                           @ '' with verified value'') JUndefined lg))
                  else (Inr (), log INFO (''Successfully filled '' @ elementSelector element) JUndefined lg)))"

text \<open>
  \<open>enterValue\<close>. When \<open>retryOperation\<close> throws \<open>undefined\<close>, reading \<open>error.name\<close> in
  \<open>logError\<close> throws a \<open>TypeError\<close> out of the \<open>catch\<close> block.
\<close>

definition enterValue ::
  "Config \<Rightarrow> PerfClock \<Rightarrow> Page \<Rightarrow> LocatorObj ElementRef \<Rightarrow> string \<Rightarrow> int \<Rightarrow> int \<Rightarrow> SmartLogger
   \<Rightarrow> (jsError + unit) \<times> SmartLogger" where
  "enterValue cfg clk page element v index timeout lg =
     (case validateParams [(''page'', JObj []), (''element'', element_arg element), (''value'', JStr v),
                           (''index'', JNum index), (''timeout'', JNum timeout)] of
        Some e \<Rightarrow> (Inl e, lg)
      | None \<Rightarrow>
          (case retryOperation cfg clk (fillOperation cfg page element v index timeout)
                  (''Enter value in '' @ elementSelector element) (MAX_RETRIES cfg) BASE_RETRY_DELAY
                  (logUserAction ''fill'' (Some (elementSelector element)) (Some v) lg) of
             (Inr u, evs, lg') \<Rightarrow> (Inr (), lg')
           | (Inl None, evs, lg') \<Rightarrow>
               (Inl (Error ''TypeError''
                       (''Cannot read properties of undefined (reading '' @ [CHR 0x27] @ ''name''
                          @ [CHR 0x27] @ '')'')),
                lg')
           | (Inl (Some error), evs, lg') \<Rightarrow>
               (Inl (new_Error (createErrorMessage ''Enter value'' element (message error))),
                logError error (Some (pg_inspect page (message error))) lg')))"

section \<open>Concrete inputs\<close>

text \<open>An inspection report of a page on which nothing is wrong.\<close>

definition report_plain :: PageInspectionReport where
  "report_plain =
     \<lparr> url = ''http://localhost:3000/wp-admin/edit.php'', title = ''Posts'',
       network = [\<lparr> net_url = ''/wp-json'', net_status = 200, net_method = ''GET'' \<rparr>],
       elements = [(''.error'', ElementInfo 1 False (Some ''hidden'')), (''exists_body'', Exists True)],
       screenshot = ''error-1.png'', jsErrors = Some [],
       loadState = Some [(''readyState'', JStr ''complete''), (''loadEventFired'', JBool True)],
       blockingElements = Some [] \<rparr>"


text \<open>An empty environment, a clock, an empty logger at the start of a test.\<close>

definition no_env :: Environment where
  "no_env = \<lparr> TEST_TIMEOUT = None, TEST_RETRIES = None, DETAILED_HEALTH_CHECKS = None,
              PERFORMANCE_MONITORING = None, VALUE_VERIFICATION = None \<rparr>"

definition clk0 :: PerfClock where
  "clk0 = \<lparr> totalTime_fixed = (\<lambda>k. ''12.34''), attemptTime_fixed = (\<lambda>k. ''1.23''),
            totalTime_over_1000 = (\<lambda>k. False) \<rparr>"

definition lg0 :: SmartLogger where
  "lg0 = \<lparr> logs = [], currentTest = ''login test'',
           stamps = (\<lambda>n. (''log_'' @ show_nat n, ''2025-01-01T00:00:00.000Z'')), issued = 0 \<rparr>"

text \<open>An operation that times out on every attempt, and one that finds the browser closed.\<close>

definition timeout_5000 :: jsError where
  "timeout_5000 = Error ''TimeoutError'' ''locator.waitFor: Timeout 5000ms exceeded.''"

definition always_timeout :: "int \<Rightarrow> SmartLogger \<Rightarrow> (jsError + unit) \<times> SmartLogger" where
  "always_timeout k lg = (Inl timeout_5000, lg)"

definition closed_error :: jsError where
  "closed_error = Error ''Error'' ''locator.click: Target page, context or browser has been closed''"

definition closed_operation :: "int \<Rightarrow> SmartLogger \<Rightarrow> (jsError + unit) \<times> SmartLogger" where
  "closed_operation k lg = (Inl closed_error, lg)"


text \<open>
  The configuration with detailed health checks switched on; a locator of one visible,
  enabled element; the same locator after the browser was closed; and with two matches.
\<close>

definition cfg_checks_on :: Config where
  "cfg_checks_on = static_config (no_env\<lparr> DETAILED_HEALTH_CHECKS := Some ''true'' \<rparr>)"

definition loc_ok :: Locator where
  "loc_ok = \<lparr> loc_waitFor = (\<lambda>st t. None), loc_count = Inr 1, loc_isVisible = Inr True,
              loc_isEnabled = Inr True, loc_toBeEnabled = (\<lambda>t. None), loc_notToBeEmpty = (\<lambda>t. None),
              loc_textContent = (\<lambda>t. Inr (Some ''Publish'')), loc_inputValue = Inr ''hello'',
              loc_getAttribute = (\<lambda>a. Inr None), loc_fill = (\<lambda>v. None) \<rparr>"

definition loc_closed :: Locator where
  "loc_closed = loc_ok\<lparr> loc_count := Inl closed_error \<rparr>"

definition loc_two :: Locator where
  "loc_two = loc_ok\<lparr> loc_count := Inr 2 \<rparr>"


text \<open>
  A locator of an element that is there but holds no text, value or attribute; a locator
  of an element that never appears; a page that resolves \<open>#title\<close> to the first and every
  other selector to the second; and a visible, enabled, unchecked checkbox.
\<close>

definition loc_empty :: Locator where
  "loc_empty = loc_ok\<lparr> loc_textContent := (\<lambda>t. Inr None), loc_inputValue := Inr [],
                         loc_getAttribute := (\<lambda>a. Inr None) \<rparr>"

definition loc_missing :: Locator where
  "loc_missing = loc_ok\<lparr> loc_waitFor := (\<lambda>st t. Some timeout_5000), loc_count := Inr 0,
                           loc_isVisible := Inr False \<rparr>"

definition page0 :: Page where
  "page0 = \<lparr> pg_locator = (\<lambda>sel i. if sel = ''#title'' \<and> i = 0 then loc_empty else loc_missing),
             pg_inspect = (\<lambda>msg. Inr report_plain) \<rparr>"



definition unchecked_box :: Checkbox where
  "unchecked_box = \<lparr> cb_visible = True, cb_enabled = True, cb_checked = Some False \<rparr>"


text \<open>A buffer with one entry of an earlier test and one of the active test.\<close>

definition entry_a :: LogEntry where
  "entry_a = \<lparr> log_id = ''log_0'', timestamp = ''2025-01-01T00:00:00.000Z'', level = ACTION,
               log_message = ''User click'', testName = ''test A'',
               log_context = JObj [(''element'', JStr ''#publish''), (''value'', JUndefined), (''step'', JNum 1)],
               category = CAT_USER_ACTION, tags = [''action'', ''element-interaction''] \<rparr>"

definition entry_b :: LogEntry where
  "entry_b = \<lparr> log_id = ''log_1'', timestamp = ''2025-01-01T00:00:01.000Z'', level = INFO,
               log_message = ''Test started'', testName = ''test B'',
               log_context = JObj [(''testName'', JStr ''test B'')],
               category = CAT_GENERAL, tags = [''info''] \<rparr>"

definition lg_two :: SmartLogger where
  "lg_two = \<lparr> logs = [entry_a, entry_b], currentTest = ''test B'',
              stamps = (\<lambda>n. (''log_'' @ show_nat n, ''2025-01-01T00:00:02.000Z'')), issued = 2 \<rparr>"


text \<open>
  The configuration with value verification switched on; a password field whose page script
  cuts the value to eight characters, so that the value read back differs; the login page
  holding it; and the error that the verification throws for \<open>password123456\<close>.
\<close>

definition cfg_verify :: Config where
  "cfg_verify = static_config (no_env\<lparr> VALUE_VERIFICATION := Some ''true'' \<rparr>)"

definition loc_truncating :: Locator where
  "loc_truncating = loc_ok\<lparr> loc_inputValue := Inr ''password'' \<rparr>"

definition page_login :: Page where
  "page_login = \<lparr> pg_locator = (\<lambda>sel i. if sel = ''#user_pass'' \<and> i = 0 then loc_truncating else loc_missing),
                  pg_inspect = (\<lambda>msg. Inr report_plain) \<rparr>"



definition mismatch_error :: jsError where
  "mismatch_error = new_Error (''Value verification failed. Expected: '' @ [CHR 0x22] @ ''password123456''
                                 @ [CHR 0x22] @ '', Actual: '' @ [CHR 0x22] @ ''password'' @ [CHR 0x22])"

chapter \<open>Properties\<close>

section \<open>Strings\<close>

lemma str_includes_sublist: "str_includes s p \<longleftrightarrow> sublist p s"
  by (induction s) (auto simp: sublist_Cons_right)

section \<open>Failure suggestions\<close>

lemma fallback_length: "length fallback_suggestions = 3"
  by (simp add: fallback_suggestions_def)

text \<open>
  Claim C10. \<open>generateFailureSuggestions\<close> never returns an empty list, and on a report in
  which no pattern matches (neither URL test, no visible entry under an error or loading
  selector, no network status from 400 on, no JavaScript error, no blocking element, and a
  load state that is absent or complete) it returns exactly the three generic fallback
  suggestions.
\<close>

theorem generateFailureSuggestions_fallback:
  "generateFailureSuggestions report \<noteq> [] \<and>
   (\<not> str_includes (url report) ''wp-login.php''
    \<and> \<not> str_includes (url report) ''404''
    \<and> \<not> str_includes (toLowerCase (title report)) ''not found''
    \<and> (\<forall>(selector, data) \<in> set (elements report).
          \<not> ((str_includes selector ''error'' \<or> str_includes selector ''loading'') \<and> data_visible data))
    \<and> (\<forall>req \<in> set (network report). net_status req < 400)
    \<and> (jsErrors report = None \<or> jsErrors report = Some [])
    \<and> (blockingElements report = None \<or> blockingElements report = Some [])
    \<and> (loadState report = None
        \<or> (\<exists>ls. loadState report = Some ls \<and> field (JObj ls) ''readyState'' = JStr ''complete''))
    \<longrightarrow> generateFailureSuggestions report = fallback_suggestions
        \<and> length (generateFailureSuggestions report) = 3)"
proof
  show "generateFailureSuggestions report \<noteq> []"
    by (auto simp: generateFailureSuggestions_def Let_def fallback_suggestions_def)
next
  show "\<not> str_includes (url report) ''wp-login.php''
    \<and> \<not> str_includes (url report) ''404''
    \<and> \<not> str_includes (toLowerCase (title report)) ''not found''
    \<and> (\<forall>(selector, data) \<in> set (elements report).
          \<not> ((str_includes selector ''error'' \<or> str_includes selector ''loading'') \<and> data_visible data))
    \<and> (\<forall>req \<in> set (network report). net_status req < 400)
    \<and> (jsErrors report = None \<or> jsErrors report = Some [])
    \<and> (blockingElements report = None \<or> blockingElements report = Some [])
    \<and> (loadState report = None
        \<or> (\<exists>ls. loadState report = Some ls \<and> field (JObj ls) ''readyState'' = JStr ''complete''))
    \<longrightarrow> generateFailureSuggestions report = fallback_suggestions
        \<and> length (generateFailureSuggestions report) = 3"
  proof (intro impI, elim conjE)
    assume u1: "\<not> str_includes (url report) ''wp-login.php''"
      and u2: "\<not> str_includes (url report) ''404''"
      and t: "\<not> str_includes (toLowerCase (title report)) ''not found''"
      and el: "\<forall>(selector, data) \<in> set (elements report).
          \<not> ((str_includes selector ''error'' \<or> str_includes selector ''loading'') \<and> data_visible data)"
      and net: "\<forall>req \<in> set (network report). net_status req < 400"
      and js: "jsErrors report = None \<or> jsErrors report = Some []"
      and bl: "blockingElements report = None \<or> blockingElements report = Some []"
      and ld: "loadState report = None
        \<or> (\<exists>ls. loadState report = Some ls \<and> field (JObj ls) ''readyState'' = JStr ''complete'')"
    have e: "concat (map element_suggestions (elements report)) = []"
      using el by (auto simp: element_suggestions_def)
    have n: "\<not> list_ex (\<lambda>req. net_status req \<ge> 400) (network report)"
      using net by (auto simp: list_ex_iff)
    have "pattern_suggestions report = []"
      unfolding pattern_suggestions_def using u1 u2 t e n js bl ld
      by (auto split: option.splits)
    then show "generateFailureSuggestions report = fallback_suggestions
        \<and> length (generateFailureSuggestions report) = 3"
      by (simp add: generateFailureSuggestions_def fallback_length)
  qed
qed

lemma report_plain_no_match:
  "\<not> str_includes (url report_plain) ''wp-login.php''
    \<and> \<not> str_includes (url report_plain) ''404''
    \<and> \<not> str_includes (toLowerCase (title report_plain)) ''not found''
    \<and> (\<forall>(selector, data) \<in> set (elements report_plain).
          \<not> ((str_includes selector ''error'' \<or> str_includes selector ''loading'') \<and> data_visible data))
    \<and> (\<forall>req \<in> set (network report_plain). net_status req < 400)
    \<and> (jsErrors report_plain = None \<or> jsErrors report_plain = Some [])
    \<and> (blockingElements report_plain = None \<or> blockingElements report_plain = Some [])
    \<and> (loadState report_plain = None
        \<or> (\<exists>ls. loadState report_plain = Some ls \<and> field (JObj ls) ''readyState'' = JStr ''complete''))"
  unfolding report_plain_def by (simp add: toLowerCase_def toLowerChar_def)

theorem generateFailureSuggestions_fallback_witness:
  "generateFailureSuggestions report_plain = fallback_suggestions
   \<and> length (generateFailureSuggestions report_plain) = 3"
  using generateFailureSuggestions_fallback [of report_plain] report_plain_no_match by blast


section \<open>The retry engine\<close>

lemma upto_rec_le: "i \<le> j \<Longrightarrow> [i..j] = i # [i + 1..j]"
  by (simp add: upto_rec1)

lemma retryLoop_all_fail:
  assumes fails: "\<And>k lg. attempt \<le> k \<Longrightarrow> k \<le> maxRetries \<Longrightarrow> fst (operation k lg) = Inl (err k)"
    and rec: "\<And>k. attempt \<le> k \<Longrightarrow> k \<le> maxRetries \<Longrightarrow> \<not> isUnrecoverableError (err k)"
    and le: "attempt \<le> maxRetries"
  shows "fst (retryLoop cfg clk operation nm maxRetries baseDelay attempt lastError evs lg)
           = Inl (Some (err maxRetries))
       \<and> fst (snd (retryLoop cfg clk operation nm maxRetries baseDelay attempt lastError evs lg))
           = evs @ concat (map (failing_trace err maxRetries baseDelay) [attempt..maxRetries])"
  using assms
proof (induction cfg clk operation nm maxRetries baseDelay attempt lastError evs lg
       rule: retryLoop.induct)
  case (1 cfg clk operation nm maxRetries baseDelay attempt lastError evs lg)
  obtain lg1 where op: "operation attempt lg = (Inl (err attempt), lg1)"
    using "1.prems"(1)[of attempt lg] "1.prems"(3) by (cases "operation attempt lg") auto
  have nr: "\<not> isUnrecoverableError (err attempt)"
    using "1.prems"(2)[of attempt] "1.prems"(3) by simp
  show ?case
  proof (cases "attempt = maxRetries")
    case True
    then show ?thesis
      using op nr by (subst (1 2) retryLoop.simps) (simp add: failing_trace_def)
  next
    case False
    with "1.prems"(3) have lt: "attempt + 1 \<le> maxRetries" by simp
    have IH: "fst (retryLoop cfg clk operation nm maxRetries baseDelay (attempt + 1) (Some (err attempt))
                 (evs @ [Invoked attempt (Some (err attempt)), Slept (retry_delay baseDelay attempt)])
                 (log WARN (nm @ '' attempt '' @ show_int attempt @ '' failed, retrying in ''
                       @ show_int (retry_delay baseDelay attempt) @ ''ms'') JUndefined lg1))
              = Inl (Some (err maxRetries))
          \<and> fst (snd (retryLoop cfg clk operation nm maxRetries baseDelay (attempt + 1) (Some (err attempt))
                 (evs @ [Invoked attempt (Some (err attempt)), Slept (retry_delay baseDelay attempt)])
                 (log WARN (nm @ '' attempt '' @ show_int attempt @ '' failed, retrying in ''
                       @ show_int (retry_delay baseDelay attempt) @ ''ms'') JUndefined lg1)))
              = (evs @ [Invoked attempt (Some (err attempt)), Slept (retry_delay baseDelay attempt)])
                @ concat (map (failing_trace err maxRetries baseDelay) [attempt + 1..maxRetries])"
      using "1.IH"[OF "1.prems"(3) op[symmetric] refl nr False] "1.prems"(1,2) lt
      by simp
    have split: "[attempt..maxRetries] = attempt # [attempt + 1..maxRetries]"
      using "1.prems"(3) by (rule upto_rec_le)
    show ?thesis
      using op nr False "1.prems"(3) IH
      by (subst (1 2) retryLoop.simps) (simp add: split failing_trace_def)
  qed
qed

lemma retryLoop_unrecoverable:
  assumes "attempt \<le> maxRetries" "fst (operation attempt lg) = Inl e" "isUnrecoverableError e"
  shows "fst (retryLoop cfg clk operation nm maxRetries baseDelay attempt lastError evs lg) = Inl (Some e)
       \<and> fst (snd (retryLoop cfg clk operation nm maxRetries baseDelay attempt lastError evs lg))
           = evs @ [Invoked attempt (Some e)]"
proof -
  obtain lg1 where op: "operation attempt lg = (Inl e, lg1)"
    using assms(2) by (cases "operation attempt lg") auto
  show ?thesis using assms(1,3) op by (subst (1 2) retryLoop.simps) simp
qed

lemma retryLoop_none:
  "\<not> attempt \<le> maxRetries \<Longrightarrow>
   retryLoop cfg clk operation nm maxRetries baseDelay attempt lastError evs lg = (Inl lastError, evs, lg)"
  by (subst retryLoop.simps) simp

lemma lowered_patterns:
  "map toLowerCase unrecoverablePatterns =
     [''element not found'', ''page has been closed'', ''context has been closed'',
      ''browser has been closed'', ''navigation failed'', ''net::err_name_not_resolved'',
      ''net::err_connection_refused'']"
  by code_simp

lemma isUnrecoverableError_iff:
  "isUnrecoverableError e \<longleftrightarrow>
     (\<exists>p \<in> set [''element not found'', ''page has been closed'', ''context has been closed'',
      ''browser has been closed'', ''navigation failed'', ''net::err_name_not_resolved'',
      ''net::err_connection_refused'']. str_includes (toLowerCase (message e)) p)"
proof -
  have "isUnrecoverableError e \<longleftrightarrow>
          (\<exists>p \<in> set (map toLowerCase unrecoverablePatterns). str_includes (toLowerCase (message e)) p)"
    by (simp add: isUnrecoverableError_def list_ex_iff)
  then show ?thesis by (simp only: lowered_patterns)
qed


lemma invocations_failing:
  "invocations (concat (map (failing_trace err m b) [i..j])) = [i..j]"
proof (induction "nat (j + 1 - i)" arbitrary: i)
  case 0
  then show ?case by (simp add: invocations_def)
next
  case (Suc n)
  then have le: "i \<le> j" by simp
  have "n = nat (j + 1 - (i + 1))" using Suc.hyps(2) by simp
  from Suc.hyps(1)[OF this]
  have "invocations (concat (map (failing_trace err m b) [i + 1..j])) = [i + 1..j]" .
  then show ?case
    by (simp add: upto_rec_le[OF le] invocations_def failing_trace_def)
qed

lemma delays_failing:
  "delays (concat (map (failing_trace err m b) [i..m])) = map (retry_delay b) [i..m - 1]"
proof (induction "nat (m + 1 - i)" arbitrary: i)
  case 0
  then show ?case by (simp add: delays_def)
next
  case (Suc n)
  then have le: "i \<le> m" by simp
  have "n = nat (m + 1 - (i + 1))" using Suc.hyps(2) by simp
  from Suc.hyps(1)[OF this]
  have IH: "delays (concat (map (failing_trace err m b) [i + 1..m])) = map (retry_delay b) [i + 1..m - 1]" .
  show ?case
  proof (cases "i < m")
    case True
    then have "[i..m - 1] = i # [i + 1..m - 1]" by (simp add: upto_rec1)
    with IH True show ?thesis
      by (simp add: upto_rec_le[OF le] delays_def failing_trace_def)
  next
    case False
    with le have "i = m" by simp
    then show ?thesis by (simp add: delays_def failing_trace_def)
  qed
qed

lemma static_default_retries:
  "TEST_RETRIES env = None \<Longrightarrow> MAX_RETRIES (static_config env) = 1"
proof -
  have "parseInt ''1'' = Some 1" by code_simp
  then show "TEST_RETRIES env = None \<Longrightarrow> MAX_RETRIES (static_config env) = 1"
    by (simp add: static_config_def loadConfiguration_def env_or_def or_default_def)
qed

lemma static_fallback_retries:
  "cfg_retries (loadConfiguration env) = None \<or> cfg_retries (loadConfiguration env) = Some 0
   \<Longrightarrow> MAX_RETRIES (static_config env) = 3"
  by (auto simp: static_config_def or_default_def)

lemma static_configured_retries:
  "cfg_retries (loadConfiguration env) = Some n \<Longrightarrow> n \<noteq> 0 \<Longrightarrow> MAX_RETRIES (static_config env) = n"
  by (simp add: static_config_def or_default_def)

lemma configured_retries_parsed:
  "cfg_retries (loadConfiguration env) = parseInt (env_or (TEST_RETRIES env) ''1'')"
  by (simp add: loadConfiguration_def)


lemma timeout_recoverable: "\<not> isUnrecoverableError timeout_5000"
  by code_simp

lemma retryOperation_no_attempt:
  "maxRetries < 1 \<Longrightarrow>
   retryOperation cfg clk operation operationName maxRetries baseDelay lg = (Inl None, [], lg)"
  unfolding retryOperation_def by (rule retryLoop_none) simp

lemma retryOperation_all_fail:
  assumes "1 \<le> maxRetries"
    and "\<forall>k lg. 1 \<le> k \<and> k \<le> maxRetries \<longrightarrow>
           fst (operation k lg) = Inl (err k) \<and> \<not> isUnrecoverableError (err k)"
  shows "fst (retryOperation cfg clk operation operationName maxRetries baseDelay lg)
           = Inl (Some (err maxRetries))
       \<and> fst (snd (retryOperation cfg clk operation operationName maxRetries baseDelay lg))
           = concat (map (\<lambda>k. Invoked k (Some (err k))
                              # (if k < maxRetries
                                 then [Slept (if k = 1 then 100 else baseDelay * 2 ^ nat (k - 2))]
                                 else []))
                       [1..maxRetries])
       \<and> invocations (fst (snd (retryOperation cfg clk operation operationName maxRetries baseDelay lg)))
           = [1..maxRetries]
       \<and> delays (fst (snd (retryOperation cfg clk operation operationName maxRetries baseDelay lg)))
           = map (\<lambda>n. if n = 1 then 100 else baseDelay * 2 ^ nat (n - 2)) [1..maxRetries - 1]"
proof -
  have run: "fst (retryOperation cfg clk operation operationName maxRetries baseDelay lg)
               = Inl (Some (err maxRetries))
       \<and> fst (snd (retryOperation cfg clk operation operationName maxRetries baseDelay lg))
           = concat (map (failing_trace err maxRetries baseDelay) [1..maxRetries])"
    unfolding retryOperation_def
    using retryLoop_all_fail[of 1 maxRetries operation err cfg clk operationName baseDelay None "[]" lg]
      assms by simp
  have ft: "failing_trace err maxRetries baseDelay
              = (\<lambda>k. Invoked k (Some (err k))
                      # (if k < maxRetries
                         then [Slept (if k = 1 then 100 else baseDelay * 2 ^ nat (k - 2))]
                         else []))"
    by (rule ext) (simp add: failing_trace_def retry_delay_def)
  have rd: "retry_delay baseDelay = (\<lambda>n. if n = 1 then 100 else baseDelay * 2 ^ nat (n - 2))"
    by (rule ext) (simp add: retry_delay_def)
  show ?thesis
    using run
    by (simp add: invocations_failing delays_failing ft[symmetric] rd[symmetric])
qed

text \<open>
  Claim C1, as the code has it. For \<open>maxRetries\<close> below one the operation is never invoked.
  An operation that fails with a recoverable error on each of the attempts
  \<open>1..maxRetries\<close>, for \<open>maxRetries\<close> at least one, is invoked exactly \<open>maxRetries\<close> times;
  after the failure of attempt \<open>k < maxRetries\<close> and before attempt \<open>k + 1\<close> the engine
  awaits 100 ms when \<open>k = 1\<close> and \<open>baseDelay * 2^(k - 2)\<close> otherwise; and the error of the
  last attempt is rethrown. The default of \<open>maxRetries\<close> is the configured retry count,
  \<open>parseInt(TEST_RETRIES || '1')\<close>, whenever that count is a number other than zero, so it
  is 1 when \<open>TEST_RETRIES\<close> is unset; it is 3 when the configured count is zero or not a
  number.
\<close>

theorem retryOperation_backoff_schedule:
  "(maxRetries < 1 \<longrightarrow>
      invocations (fst (snd (retryOperation cfg clk operation operationName maxRetries baseDelay lg))) = [])
   \<and> (1 \<le> maxRetries
       \<and> (\<forall>k lg. 1 \<le> k \<and> k \<le> maxRetries \<longrightarrow>
              fst (operation k lg) = Inl (err k) \<and> \<not> isUnrecoverableError (err k))
       \<longrightarrow> fst (retryOperation cfg clk operation operationName maxRetries baseDelay lg)
             = Inl (Some (err maxRetries))
         \<and> fst (snd (retryOperation cfg clk operation operationName maxRetries baseDelay lg))
             = concat (map (\<lambda>k. Invoked k (Some (err k))
                                # (if k < maxRetries
                                   then [Slept (if k = 1 then 100 else baseDelay * 2 ^ nat (k - 2))]
                                   else []))
                         [1..maxRetries])
         \<and> invocations (fst (snd (retryOperation cfg clk operation operationName maxRetries baseDelay lg)))
             = [1..maxRetries]
         \<and> delays (fst (snd (retryOperation cfg clk operation operationName maxRetries baseDelay lg)))
             = map (\<lambda>n. if n = 1 then 100 else baseDelay * 2 ^ nat (n - 2)) [1..maxRetries - 1])
   \<and> cfg_retries (loadConfiguration env) = parseInt (env_or (TEST_RETRIES env) ''1'')
   \<and> (cfg_retries (loadConfiguration env) = Some n \<and> n \<noteq> 0 \<longrightarrow> MAX_RETRIES (static_config env) = n)
   \<and> (TEST_RETRIES env = None \<longrightarrow> MAX_RETRIES (static_config env) = 1)
   \<and> (cfg_retries (loadConfiguration env) = None \<or> cfg_retries (loadConfiguration env) = Some 0
        \<longrightarrow> MAX_RETRIES (static_config env) = 3)"
proof (intro conjI impI)
  show "cfg_retries (loadConfiguration env) = parseInt (env_or (TEST_RETRIES env) ''1'')"
    by (rule configured_retries_parsed)
next
  assume "cfg_retries (loadConfiguration env) = Some n \<and> n \<noteq> 0"
  then show "MAX_RETRIES (static_config env) = n" by (simp add: static_configured_retries)
next
  assume "maxRetries < 1"
  then show "invocations (fst (snd (retryOperation cfg clk operation operationName maxRetries baseDelay lg))) = []"
    by (simp add: retryOperation_no_attempt invocations_def)
next
  assume "TEST_RETRIES env = None"
  then show "MAX_RETRIES (static_config env) = 1" by (rule static_default_retries)
next
  assume "cfg_retries (loadConfiguration env) = None \<or> cfg_retries (loadConfiguration env) = Some 0"
  then show "MAX_RETRIES (static_config env) = 3" by (rule static_fallback_retries)
qed (use retryOperation_all_fail[of maxRetries operation err cfg clk operationName baseDelay lg] in blast)+

theorem retryOperation_backoff_schedule_witness:
  "fst (retryOperation (static_config no_env) clk0 always_timeout ''Click'' 4 500 lg0)
     = Inl (Some timeout_5000)
   \<and> fst (snd (retryOperation (static_config no_env) clk0 always_timeout ''Click'' 4 500 lg0))
     = [Invoked 1 (Some timeout_5000), Slept 100, Invoked 2 (Some timeout_5000), Slept 500,
        Invoked 3 (Some timeout_5000), Slept 1000, Invoked 4 (Some timeout_5000)]
   \<and> delays (fst (snd (retryOperation (static_config no_env) clk0 always_timeout ''Click'' 4 500 lg0)))
     = [100, 500, 1000]
   \<and> invocations (fst (snd (retryOperation (static_config no_env) clk0 always_timeout ''Click'' 0 500 lg0)))
     = []
   \<and> MAX_RETRIES (static_config no_env) = 1
   \<and> MAX_RETRIES (static_config (no_env\<lparr> TEST_RETRIES := Some ''5'' \<rparr>)) = 5
   \<and> MAX_RETRIES (static_config (no_env\<lparr> TEST_RETRIES := Some ''0'' \<rparr>)) = 3
   \<and> MAX_RETRIES (static_config (no_env\<lparr> TEST_RETRIES := Some ''many'' \<rparr>)) = 3"
proof -
  have h: "(1::int) \<le> 4
           \<and> (\<forall>k lg. 1 \<le> k \<and> k \<le> 4 \<longrightarrow>
                 fst (always_timeout k lg) = Inl ((\<lambda>k. timeout_5000) k)
                 \<and> \<not> isUnrecoverableError ((\<lambda>k. timeout_5000) k))"
    by (simp add: always_timeout_def timeout_recoverable)
  have u: "[1..4::int] = [1, 2, 3, 4]" "[1..3::int] = [1, 2, 3]" by (simp_all add: upto_rec1)
  have e: "TEST_RETRIES no_env = None" by (simp add: no_env_def)
  have four: "fst (retryOperation (static_config no_env) clk0 always_timeout ''Click'' 4 500 lg0)
          = Inl (Some ((\<lambda>k. timeout_5000) 4))
        \<and> fst (snd (retryOperation (static_config no_env) clk0 always_timeout ''Click'' 4 500 lg0))
          = concat (map (\<lambda>k. Invoked k (Some ((\<lambda>k. timeout_5000) k))
                              # (if k < 4
                                 then [Slept (if k = 1 then 100 else 500 * 2 ^ nat (k - 2))]
                                 else []))
                       [1..4])"
    using retryOperation_backoff_schedule[of 4 "static_config no_env" clk0 always_timeout "''Click''" 500
            lg0 "\<lambda>k. timeout_5000" no_env 1] h
    by blast
  have none: "invocations (fst (snd (retryOperation (static_config no_env) clk0 always_timeout ''Click''
                                       0 500 lg0))) = []
              \<and> MAX_RETRIES (static_config no_env) = 1"
    using retryOperation_backoff_schedule[of 0 "static_config no_env" clk0 always_timeout "''Click''" 500
            lg0 "\<lambda>k. timeout_5000" no_env 1] e
    by simp
  have p5: "parseInt ''5'' = Some 5" and p0: "parseInt ''0'' = Some 0" and pm: "parseInt ''many'' = None"
    by code_simp+
  have c5: "cfg_retries (loadConfiguration (no_env\<lparr> TEST_RETRIES := Some ''5'' \<rparr>)) = Some 5
            \<and> (5::int) \<noteq> 0"
    by (simp add: loadConfiguration_def env_or_def p5)
  have five: "MAX_RETRIES (static_config (no_env\<lparr> TEST_RETRIES := Some ''5'' \<rparr>)) = 5"
    using retryOperation_backoff_schedule[of 0 "static_config no_env" clk0 always_timeout "''Click''" 500
            lg0 "\<lambda>k. timeout_5000" "no_env\<lparr> TEST_RETRIES := Some ''5'' \<rparr>" 5] c5
    by blast
  have c0: "cfg_retries (loadConfiguration (no_env\<lparr> TEST_RETRIES := Some ''0'' \<rparr>)) = Some 0"
    by (simp add: loadConfiguration_def env_or_def p0)
  have zero: "MAX_RETRIES (static_config (no_env\<lparr> TEST_RETRIES := Some ''0'' \<rparr>)) = 3"
    using retryOperation_backoff_schedule[of 0 "static_config no_env" clk0 always_timeout "''Click''" 500
            lg0 "\<lambda>k. timeout_5000" "no_env\<lparr> TEST_RETRIES := Some ''0'' \<rparr>" 1] c0
    by blast
  have cm: "cfg_retries (loadConfiguration (no_env\<lparr> TEST_RETRIES := Some ''many'' \<rparr>)) = None"
    by (simp add: loadConfiguration_def env_or_def pm)
  have nan: "MAX_RETRIES (static_config (no_env\<lparr> TEST_RETRIES := Some ''many'' \<rparr>)) = 3"
    using retryOperation_backoff_schedule[of 0 "static_config no_env" clk0 always_timeout "''Click''" 500
            lg0 "\<lambda>k. timeout_5000" "no_env\<lparr> TEST_RETRIES := Some ''many'' \<rparr>" 1] cm
    by blast
  from four none five zero nan show ?thesis by (simp add: u delays_def)
qed

text \<open>
  Claim C1 as stated gives 3 as the default number of attempts. In an empty environment
  the default is 1: an operation that always times out is invoked once and never retried.
\<close>

theorem default_attempts_counterexample:
  "MAX_RETRIES (static_config no_env) = 1
   \<and> fst (snd (retryOperation (static_config no_env) clk0 always_timeout ''Click''
                 (MAX_RETRIES (static_config no_env)) BASE_RETRY_DELAY lg0))
       = [Invoked 1 (Some timeout_5000)]"
proof -
  have m: "MAX_RETRIES (static_config no_env) = 1"
    by (rule static_default_retries) (simp add: no_env_def)
  have "fst (snd (retryLoop (static_config no_env) clk0 always_timeout ''Click'' 1 BASE_RETRY_DELAY 1
                    None [] lg0))
          = [] @ concat (map (failing_trace (\<lambda>k. timeout_5000) 1 BASE_RETRY_DELAY) [1..1])"
    using retryLoop_all_fail[of 1 1 always_timeout "\<lambda>k. timeout_5000" "static_config no_env" clk0
            "''Click''" BASE_RETRY_DELAY None "[]" lg0]
    by (simp add: always_timeout_def timeout_recoverable)
  then show ?thesis
    by (simp add: m retryOperation_def failing_trace_def)
qed


lemma retryOperation_unrecoverable_first:
  assumes "1 \<le> maxRetries"
    and "fst (operation 1 lg) = Inl e"
    and "\<exists>p \<in> set [''element not found'', ''page has been closed'', ''context has been closed'',
                    ''browser has been closed'', ''navigation failed'', ''net::err_name_not_resolved'',
                    ''net::err_connection_refused'']. str_includes (toLowerCase (message e)) p"
  shows "fst (retryOperation cfg clk operation operationName maxRetries baseDelay lg) = Inl (Some e)
       \<and> fst (snd (retryOperation cfg clk operation operationName maxRetries baseDelay lg))
           = [Invoked 1 (Some e)]"
proof -
  have "isUnrecoverableError e" using assms(3) by (simp only: isUnrecoverableError_iff)
  then show ?thesis
    unfolding retryOperation_def
    using retryLoop_unrecoverable[of 1 maxRetries operation lg e cfg clk operationName baseDelay None "[]"]
      assms(1,2) by simp
qed

lemma closed_unrecoverable: "isUnrecoverableError closed_error"
  by code_simp

text \<open>
  Claim C2, as the code has it. When the first invocation throws an error whose message,
  in lower case, contains one of the unrecoverable patterns, the operation is invoked
  exactly once and that error is rethrown, whatever \<open>maxRetries\<close> from one on. For
  \<open>maxRetries\<close> below one the loop body never runs: the operation is not invoked, nothing
  is logged, and the value thrown is \<open>undefined\<close>.
\<close>

theorem retryOperation_fail_fast:
  "(1 \<le> maxRetries \<and> fst (operation 1 lg) = Inl e
      \<and> (\<exists>p \<in> set [''element not found'', ''page has been closed'', ''context has been closed'',
                    ''browser has been closed'', ''navigation failed'', ''net::err_name_not_resolved'',
                    ''net::err_connection_refused'']. str_includes (toLowerCase (message e)) p)
      \<longrightarrow> fst (retryOperation cfg clk operation operationName maxRetries baseDelay lg) = Inl (Some e)
          \<and> fst (snd (retryOperation cfg clk operation operationName maxRetries baseDelay lg))
              = [Invoked 1 (Some e)])
   \<and> (maxRetries < 1
      \<longrightarrow> retryOperation cfg clk operation operationName maxRetries baseDelay lg = (Inl None, [], lg))"
proof (intro conjI impI)
  assume "maxRetries < 1"
  then show "retryOperation cfg clk operation operationName maxRetries baseDelay lg = (Inl None, [], lg)"
    by (rule retryOperation_no_attempt)
qed (use retryOperation_unrecoverable_first[of maxRetries operation lg e cfg clk operationName baseDelay]
      in blast)+

theorem retryOperation_fail_fast_witness:
  "fst (retryOperation (static_config no_env) clk0 closed_operation ''Click'' 5 500 lg0)
     = Inl (Some closed_error)
   \<and> fst (snd (retryOperation (static_config no_env) clk0 closed_operation ''Click'' 5 500 lg0))
     = [Invoked 1 (Some closed_error)]
   \<and> retryOperation (static_config no_env) clk0 closed_operation ''Click'' 0 500 lg0 = (Inl None, [], lg0)"
proof -
  have h1: "(1::int) \<le> 5" by simp
  have h2: "fst (closed_operation 1 lg0) = Inl closed_error" by (simp add: closed_operation_def)
  have "str_includes (toLowerCase (message closed_error)) ''browser has been closed''" by code_simp
  then have h3: "\<exists>p \<in> set [''element not found'', ''page has been closed'', ''context has been closed'',
                    ''browser has been closed'', ''navigation failed'', ''net::err_name_not_resolved'',
                    ''net::err_connection_refused'']. str_includes (toLowerCase (message closed_error)) p"
    by simp
  have one: "fst (retryOperation (static_config no_env) clk0 closed_operation ''Click'' 5 500 lg0)
               = Inl (Some closed_error)
             \<and> fst (snd (retryOperation (static_config no_env) clk0 closed_operation ''Click'' 5 500 lg0))
               = [Invoked 1 (Some closed_error)]"
    using retryOperation_fail_fast[of 5 closed_operation lg0 closed_error "static_config no_env" clk0
            "''Click''" 500] h1 h2 h3
    by blast
  have h0: "(0::int) < 1" by simp
  have none: "retryOperation (static_config no_env) clk0 closed_operation ''Click'' 0 500 lg0
                = (Inl None, [], lg0)"
    using retryOperation_fail_fast[of 0 closed_operation lg0 closed_error "static_config no_env" clk0
            "''Click''" 500] h0
    by blast
  from one none show ?thesis by blast
qed

text \<open>
  Claim C2 as stated holds for every configured number of attempts. With
  \<open>TEST_RETRIES=-2\<close> the configured number is -2, and an operation whose first failure
  would be the unrecoverable closed-browser error is not invoked at all: the trace is
  empty and the value thrown is \<open>undefined\<close>, not that error.
\<close>

theorem fail_fast_negative_counterexample:
  "MAX_RETRIES (static_config (no_env\<lparr> TEST_RETRIES := Some ''-2'' \<rparr>)) = - 2
   \<and> fst (closed_operation 1 lg0) = Inl closed_error
   \<and> isUnrecoverableError closed_error
   \<and> retryOperation (static_config (no_env\<lparr> TEST_RETRIES := Some ''-2'' \<rparr>)) clk0 closed_operation
        ''Click'' (MAX_RETRIES (static_config (no_env\<lparr> TEST_RETRIES := Some ''-2'' \<rparr>))) BASE_RETRY_DELAY lg0
       = (Inl None, [], lg0)"
proof -
  have p: "parseInt ''-2'' = Some (- 2)" by code_simp
  have c: "cfg_retries (loadConfiguration (no_env\<lparr> TEST_RETRIES := Some ''-2'' \<rparr>)) = Some (- 2)"
    by (simp add: loadConfiguration_def env_or_def p)
  have m: "MAX_RETRIES (static_config (no_env\<lparr> TEST_RETRIES := Some ''-2'' \<rparr>)) = - 2"
    by (rule static_configured_retries[OF c]) simp
  have r: "retryOperation (static_config (no_env\<lparr> TEST_RETRIES := Some ''-2'' \<rparr>)) clk0 closed_operation
             ''Click'' (- 2) BASE_RETRY_DELAY lg0 = (Inl None, [], lg0)"
    by (rule retryOperation_no_attempt) simp
  show ?thesis
    by (simp only: m r closed_unrecoverable) (simp add: closed_operation_def)
qed

section \<open>The health checker\<close>

lemma ENABLE_cfg_checks_on: "ENABLE_HEALTH_CHECKS cfg_checks_on"
  by (simp add: cfg_checks_on_def static_config_def no_env_def)

lemma prefix_str_includes: "prefix p s \<Longrightarrow> str_includes s p"
  by (cases s) auto

lemma multiple_note_includes: "str_includes (multiple_note n) ''Multiple elements''"
  by (rule prefix_str_includes) (simp add: multiple_note_def)

lemma other_notes_exclude:
  "\<not> str_includes ''Element is not visible'' ''Multiple elements''"
  "\<not> str_includes ''Element is disabled'' ''Multiple elements''"
  "\<not> str_includes ''Element not found in DOM'' ''Multiple elements''"
  by simp_all

lemma other_notes_differ:
  "multiple_note n \<noteq> ''Element is not visible''"
  "multiple_note n \<noteq> ''Element is disabled''"
  "multiple_note n \<noteq> ''Element not found in DOM''"
  by (simp_all add: multiple_note_def)


lemma health_of_healthy:
  "set found \<subseteq> {multiple_note n, ''Element is not visible'', ''Element is disabled''}
   \<Longrightarrow> healthy (health_of found) \<longleftrightarrow> (\<forall>i \<in> set found. i = multiple_note n)"
proof -
  assume sub: "set found \<subseteq> {multiple_note n, ''Element is not visible'', ''Element is disabled''}"
  have "\<And>i. i \<in> set found \<Longrightarrow> str_includes i ''Multiple elements'' \<longleftrightarrow> i = multiple_note n"
    using sub multiple_note_includes other_notes_exclude other_notes_differ by blast
  then show ?thesis
    by (simp add: health_of_def filter_empty_conv)
qed

lemma health_of_issues: "issues (health_of found) = found"
  by (simp add: health_of_def)

lemma inspectElement_healthy:
  assumes n: "loc_count loc = Inr n" and r: "fst (inspectElement loc operationType) = Inr r"
  shows "healthy r \<longleftrightarrow> (\<forall>i \<in> set (issues r). i = multiple_note n)"
proof (cases "n = 0")
  case True
  with n r have "r = \<lparr> healthy = False, issues = [''Element not found in DOM''] \<rparr>"
    by (simp add: inspectElement_def)
  then show ?thesis using other_notes_differ(3)[of n] by simp
next
  case False
  obtain v where v: "loc_isVisible loc = Inr v"
    using n r False by (cases "loc_isVisible loc") (simp_all add: inspectElement_def Let_def)
  let ?i2 = "(if n > 1 then [multiple_note n] else []) @ (if \<not> v then [''Element is not visible''] else [])"
  show ?thesis
  proof (cases "(operationType = OpClick \<or> operationType = OpFill) \<and> v")
    case True
    then obtain en where en: "loc_isEnabled loc = Inr en"
      using n r False v by (cases "loc_isEnabled loc") (simp_all add: inspectElement_def Let_def)
    have "r = health_of (?i2 @ (if \<not> en then [''Element is disabled''] else []))"
      using n r False v True en by (simp add: inspectElement_def Let_def)
    moreover have "set (?i2 @ (if \<not> en then [''Element is disabled''] else []))
                     \<subseteq> {multiple_note n, ''Element is not visible'', ''Element is disabled''}"
      by auto
    ultimately show ?thesis
      using health_of_healthy health_of_issues by metis
  next
    case nv: False
    have "r = health_of ?i2"
      using n r False v nv by (auto simp: inspectElement_def Let_def)
    moreover have "set ?i2 \<subseteq> {multiple_note n, ''Element is not visible'', ''Element is disabled''}"
      by auto
    ultimately show ?thesis
      using health_of_healthy health_of_issues by metis
  qed
qed


text \<open>
  Claim C3. \<open>checkElementHealth\<close> returns a report for every configuration, locator and
  operation type and never throws; and when checks are enabled and one of the driver calls
  it makes (\<open>count\<close>, then \<open>isVisible\<close>, then \<open>isEnabled\<close>) throws \<open>e\<close>, the report is
  \<open>{healthy: true, issues: ["Health check skipped: " + e.message]}\<close>.
\<close>

theorem checkElementHealth_never_raises:
  "(\<exists>report. fst (checkElementHealth cfg loc operationType) = Inr report)
   \<and> (ENABLE_HEALTH_CHECKS cfg \<and> loc_count loc = Inl e
        \<longrightarrow> fst (checkElementHealth cfg loc operationType)
              = Inr \<lparr> healthy = True, issues = [''Health check skipped: '' @ message e] \<rparr>)
   \<and> (ENABLE_HEALTH_CHECKS cfg \<and> loc_count loc = Inr n \<and> n > 0 \<and> loc_isVisible loc = Inl e
        \<longrightarrow> fst (checkElementHealth cfg loc operationType)
              = Inr \<lparr> healthy = True, issues = [''Health check skipped: '' @ message e] \<rparr>)
   \<and> (ENABLE_HEALTH_CHECKS cfg \<and> loc_count loc = Inr n \<and> n > 0 \<and> loc_isVisible loc = Inr True
        \<and> operationType \<noteq> OpRead \<and> loc_isEnabled loc = Inl e
        \<longrightarrow> fst (checkElementHealth cfg loc operationType)
              = Inr \<lparr> healthy = True, issues = [''Health check skipped: '' @ message e] \<rparr>)"
proof (intro conjI impI)
  show "\<exists>report. fst (checkElementHealth cfg loc operationType) = Inr report"
    by (cases "inspectElement loc operationType")
       (auto simp: checkElementHealth_def split: sum.splits)
next
  assume "ENABLE_HEALTH_CHECKS cfg \<and> loc_count loc = Inl e"
  then show "fst (checkElementHealth cfg loc operationType)
              = Inr \<lparr> healthy = True, issues = [''Health check skipped: '' @ message e] \<rparr>"
    by (simp add: checkElementHealth_def inspectElement_def)
next
  assume "ENABLE_HEALTH_CHECKS cfg \<and> loc_count loc = Inr n \<and> n > 0 \<and> loc_isVisible loc = Inl e"
  then show "fst (checkElementHealth cfg loc operationType)
              = Inr \<lparr> healthy = True, issues = [''Health check skipped: '' @ message e] \<rparr>"
    by (simp add: checkElementHealth_def inspectElement_def Let_def)
next
  assume "ENABLE_HEALTH_CHECKS cfg \<and> loc_count loc = Inr n \<and> n > 0 \<and> loc_isVisible loc = Inr True
        \<and> operationType \<noteq> OpRead \<and> loc_isEnabled loc = Inl e"
  then show "fst (checkElementHealth cfg loc operationType)
              = Inr \<lparr> healthy = True, issues = [''Health check skipped: '' @ message e] \<rparr>"
    by (cases operationType) (simp_all add: checkElementHealth_def inspectElement_def Let_def)
qed

theorem checkElementHealth_never_raises_witness:
  "fst (checkElementHealth cfg_checks_on loc_closed OpClick)
     = Inr \<lparr> healthy = True,
             issues = [''Health check skipped: locator.click: Target page, context or browser has been closed''] \<rparr>"
proof -
  have "ENABLE_HEALTH_CHECKS cfg_checks_on \<and> loc_count loc_closed = Inl closed_error"
    by (simp add: ENABLE_cfg_checks_on loc_closed_def)
  then show ?thesis
    using checkElementHealth_never_raises[of cfg_checks_on loc_closed OpClick closed_error]
    by (simp add: closed_error_def)
qed

lemma inspectElement_count:
  "fst (inspectElement loc operationType) = Inr r \<Longrightarrow> \<exists>n. loc_count loc = Inr n"
  by (auto simp: inspectElement_def split: sum.splits)


text \<open>
  Claim C4, as the code has it. With detailed health checks disabled the report is
  \<open>{healthy: true, issues: []}\<close> and no driver call is made. With checks enabled and no
  driver call throwing, \<open>healthy\<close> is true exactly when every issue is the multiple-matches
  note; a match count of zero gives \<open>healthy: false\<close> with the single issue
  \<open>Element not found in DOM\<close>; and several matches of a visible, enabled element give
  \<open>healthy: true\<close> with the note as the only issue.
\<close>

theorem checkElementHealth_healthy_flag:
  "(\<not> ENABLE_HEALTH_CHECKS cfg
      \<longrightarrow> checkElementHealth cfg loc operationType = (Inr \<lparr> healthy = True, issues = [] \<rparr>, []))
   \<and> (ENABLE_HEALTH_CHECKS cfg \<and> (\<forall>e. fst (inspectElement loc operationType) \<noteq> Inl e)
      \<longrightarrow> (\<exists>r n. fst (checkElementHealth cfg loc operationType) = Inr r \<and> loc_count loc = Inr n
                 \<and> (healthy r \<longleftrightarrow> (\<forall>i \<in> set (issues r). i = multiple_note n))))
   \<and> (ENABLE_HEALTH_CHECKS cfg \<and> loc_count loc = Inr 0
      \<longrightarrow> fst (checkElementHealth cfg loc operationType)
            = Inr \<lparr> healthy = False, issues = [''Element not found in DOM''] \<rparr>)
   \<and> (ENABLE_HEALTH_CHECKS cfg \<and> loc_count loc = Inr m \<and> m > 1 \<and> loc_isVisible loc = Inr True
        \<and> (operationType = OpRead \<or> loc_isEnabled loc = Inr True)
      \<longrightarrow> fst (checkElementHealth cfg loc operationType)
            = Inr \<lparr> healthy = True, issues = [multiple_note m] \<rparr>)"
proof (intro conjI impI)
  assume "\<not> ENABLE_HEALTH_CHECKS cfg"
  then show "checkElementHealth cfg loc operationType = (Inr \<lparr> healthy = True, issues = [] \<rparr>, [])"
    by (simp add: checkElementHealth_def)
next
  assume a: "ENABLE_HEALTH_CHECKS cfg \<and> (\<forall>e. fst (inspectElement loc operationType) \<noteq> Inl e)"
  then obtain r where r: "fst (inspectElement loc operationType) = Inr r"
    by (cases "fst (inspectElement loc operationType)") auto
  then obtain n where n: "loc_count loc = Inr n" using inspectElement_count by blast
  have "fst (checkElementHealth cfg loc operationType) = Inr r"
    using a r by (cases "inspectElement loc operationType") (simp add: checkElementHealth_def)
  then show "\<exists>r n. fst (checkElementHealth cfg loc operationType) = Inr r \<and> loc_count loc = Inr n
                 \<and> (healthy r \<longleftrightarrow> (\<forall>i \<in> set (issues r). i = multiple_note n))"
    using inspectElement_healthy[OF n r] n by blast
next
  assume "ENABLE_HEALTH_CHECKS cfg \<and> loc_count loc = Inr 0"
  then show "fst (checkElementHealth cfg loc operationType)
            = Inr \<lparr> healthy = False, issues = [''Element not found in DOM''] \<rparr>"
    by (simp add: checkElementHealth_def inspectElement_def)
next
  assume "ENABLE_HEALTH_CHECKS cfg \<and> loc_count loc = Inr m \<and> m > 1 \<and> loc_isVisible loc = Inr True
        \<and> (operationType = OpRead \<or> loc_isEnabled loc = Inr True)"
  then show "fst (checkElementHealth cfg loc operationType)
            = Inr \<lparr> healthy = True, issues = [multiple_note m] \<rparr>"
    by (auto simp: checkElementHealth_def inspectElement_def Let_def health_of_def
          multiple_note_includes)
qed


theorem checkElementHealth_healthy_flag_witness:
  "checkElementHealth (static_config no_env) loc_two OpClick = (Inr \<lparr> healthy = True, issues = [] \<rparr>, [])
   \<and> fst (checkElementHealth cfg_checks_on loc_two OpClick)
       = Inr \<lparr> healthy = True, issues = [''Multiple elements found (2), using first one''] \<rparr>
   \<and> fst (checkElementHealth cfg_checks_on (loc_ok\<lparr> loc_count := Inr 0 \<rparr>) OpClick)
       = Inr \<lparr> healthy = False, issues = [''Element not found in DOM''] \<rparr>"
proof -
  have off: "\<not> ENABLE_HEALTH_CHECKS (static_config no_env)"
    by (simp add: static_config_def no_env_def)
  have two: "ENABLE_HEALTH_CHECKS cfg_checks_on \<and> loc_count loc_two = Inr 2 \<and> (2::nat) > 1
        \<and> loc_isVisible loc_two = Inr True \<and> (OpClick = OpRead \<or> loc_isEnabled loc_two = Inr True)"
    by (simp add: ENABLE_cfg_checks_on loc_two_def loc_ok_def)
  have zero: "ENABLE_HEALTH_CHECKS cfg_checks_on \<and> loc_count (loc_ok\<lparr> loc_count := Inr 0 \<rparr>) = Inr 0"
    by (simp add: ENABLE_cfg_checks_on)
  have mn: "multiple_note 2 = ''Multiple elements found (2), using first one''"
    by code_simp
  show ?thesis
    using checkElementHealth_healthy_flag[of "static_config no_env" loc_two OpClick 2]
      checkElementHealth_healthy_flag[of cfg_checks_on loc_two OpClick 2]
      checkElementHealth_healthy_flag[of cfg_checks_on "loc_ok\<lparr> loc_count := Inr 0 \<rparr>" OpClick 2]
      off two zero
    by (simp only: mn) blast
qed


text \<open>
  Claim C4 as stated makes \<open>healthy\<close> true only when every issue is the multiple-matches
  note. With checks enabled and \<open>count()\<close> throwing, the report is healthy although its
  only issue is the skip notice, which is not that note.
\<close>

theorem checkElementHealth_skipped_counterexample:
  "fst (checkElementHealth cfg_checks_on loc_closed OpClick)
     = Inr \<lparr> healthy = True,
             issues = [''Health check skipped: locator.click: Target page, context or browser has been closed''] \<rparr>
   \<and> \<not> str_includes ''Health check skipped: locator.click: Target page, context or browser has been closed''
          ''Multiple elements''"
proof -
  have "fst (checkElementHealth cfg_checks_on loc_closed OpClick)
     = Inr \<lparr> healthy = True,
             issues = [''Health check skipped: locator.click: Target page, context or browser has been closed''] \<rparr>"
    by (simp add: checkElementHealth_def inspectElement_def ENABLE_cfg_checks_on loc_closed_def
          closed_error_def)
  moreover have "\<not> str_includes ''Health check skipped: locator.click: Target page, context or browser has been closed''
          ''Multiple elements''"
    by code_simp
  ultimately show ?thesis by simp
qed


section \<open>The smart wait\<close>

lemma smartWait_settle_iff:
  "SettleDelay d \<in> set (snd (smartWaitForElement cfg loc conditions timeout))
   \<longleftrightarrow> d = ANIMATION_DELAY \<and> stable conditions = Some True
       \<and> (or_else (visible conditions) True \<longrightarrow> loc_waitFor loc Visible timeout = None)"
  by (auto simp: smartWaitForElement_def Let_def or_else_def split: option.splits if_splits)

lemma smartWait_order:
  "fst (smartWaitForElement cfg loc
          \<lparr> visible = Some True, stable = Some True, enabled = Some True, hasText = Some True \<rparr> timeout) = None
   \<Longrightarrow> snd (smartWaitForElement cfg loc
          \<lparr> visible = Some True, stable = Some True, enabled = Some True, hasText = Some True \<rparr> timeout)
       = [AwaitVisible timeout, SettleDelay ANIMATION_DELAY, ExpectEnabled (SHORT_TIMEOUT cfg),
          ExpectNotEmpty (SHORT_TIMEOUT cfg)]"
  by (auto simp: smartWaitForElement_def Let_def or_else_def split: option.splits if_splits)


text \<open>
  Claim C5 at the call that \<open>clickElement\<close> and \<open>enterValue\<close> make, \<open>{visible: true}\<close>, with
  detailed checks enabled and the element visible: the wait consists of the visibility
  wait alone. The flag by itself adds no stability delay; by \<open>smartWait_settle_iff\<close> the
  delay is taken exactly when \<open>stable: true\<close> is passed.
\<close>

theorem smartWait_flag_alone_skips_delay:
  "smartWaitForElement cfg_checks_on loc_ok
     \<lparr> visible = Some True, stable = None, enabled = None, hasText = None \<rparr> 5000
   = (None, [AwaitVisible 5000])"
  by (simp add: smartWaitForElement_def or_else_def loc_ok_def)


section \<open>Reading\<close>

lemma element_arg_defined: "element_arg element \<noteq> JNull \<and> element_arg element \<noteq> JUndefined"
  by (cases element) simp_all

lemma validate_read:
  "validateParams [(''page'', JObj []), (''element'', element_arg element),
                   (''index'', JNum index), (''timeout'', JNum timeout)] = None
   \<longleftrightarrow> 0 \<le> index \<and> 0 \<le> timeout"
  using element_arg_defined[of element] by auto

lemma validate_attribute:
  "validateParams [(''page'', JObj []), (''element'', element_arg element), (''attribute'', JStr attribute),
                   (''index'', JNum index), (''timeout'', JNum timeout)] = None
   \<longleftrightarrow> 0 \<le> index \<and> 0 \<le> timeout"
  using element_arg_defined[of element] by auto

lemma createErrorMessage_names:
  "str_includes (createErrorMessage operation element error) operation
   \<and> str_includes (createErrorMessage operation element error) (elementDesc element)"
proof -
  have "sublist operation (operation @ ('' failed for '' @ elementDesc element
                                         @ (if error \<noteq> [] then '': '' @ error else [])))"
    by (rule prefix_imp_sublist) simp
  moreover have "sublist (elementDesc element)
                  ((operation @ '' failed for '') @ elementDesc element
                     @ (if error \<noteq> [] then '': '' @ error else []))"
    by (rule sublist_appendI)
  ultimately show ?thesis
    by (simp add: createErrorMessage_def str_includes_sublist)
qed



text \<open>
  Claim C7. With valid parameters, on an element whose wait succeeds, \<open>getElementText\<close>
  returns the empty string when \<open>textContent\<close> answers \<open>null\<close> or the empty string,
  \<open>getInputValue\<close> when \<open>inputValue\<close> answers the empty string, and \<open>getElementAttribute\<close>
  when \<open>getAttribute\<close> answers \<open>null\<close> or the empty string. When the wait rejects with
  \<open>e\<close>, each of the three throws a new error whose message is built by
  \<open>createErrorMessage\<close> from the operation name, the element and \<open>e.message\<close>, and so
  contains the operation name and the element descriptor.
\<close>

theorem read_defaults:
  "(0 \<le> index \<and> 0 \<le> timeout
      \<and> loc_waitFor (createLocator page element index) Visible timeout = None
      \<and> (loc_textContent (createLocator page element index) timeout = Inr None
           \<or> loc_textContent (createLocator page element index) timeout = Inr (Some []))
      \<longrightarrow> getElementText page element index timeout = Inr [])
   \<and> (0 \<le> index \<and> 0 \<le> timeout
      \<and> loc_waitFor (createLocator page element index) Visible timeout = None
      \<and> loc_inputValue (createLocator page element index) = Inr []
      \<longrightarrow> getInputValue page element index timeout = Inr [])
   \<and> (0 \<le> index \<and> 0 \<le> timeout
      \<and> loc_waitFor (createLocator page element index) Attached timeout = None
      \<and> (loc_getAttribute (createLocator page element index) attribute = Inr None
           \<or> loc_getAttribute (createLocator page element index) attribute = Inr (Some []))
      \<longrightarrow> getElementAttribute page element attribute index timeout = Inr [])
   \<and> (0 \<le> index \<and> 0 \<le> timeout
      \<and> loc_waitFor (createLocator page element index) Visible timeout = Some e
      \<longrightarrow> getElementText page element index timeout
            = Inl (new_Error (createErrorMessage ''Get text'' element (message e)))
        \<and> getInputValue page element index timeout
            = Inl (new_Error (createErrorMessage ''Get input value'' element (message e)))
        \<and> str_includes (createErrorMessage ''Get text'' element (message e)) ''Get text''
        \<and> str_includes (createErrorMessage ''Get text'' element (message e)) (elementDesc element)
        \<and> str_includes (createErrorMessage ''Get input value'' element (message e)) ''Get input value''
        \<and> str_includes (createErrorMessage ''Get input value'' element (message e)) (elementDesc element))
   \<and> (0 \<le> index \<and> 0 \<le> timeout
      \<and> loc_waitFor (createLocator page element index) Attached timeout = Some e
      \<longrightarrow> getElementAttribute page element attribute index timeout
            = Inl (new_Error (createErrorMessage (''Get attribute '' @ [CHR 0x22] @ attribute @ [CHR 0x22])
                                element (message e)))
        \<and> str_includes (createErrorMessage (''Get attribute '' @ [CHR 0x22] @ attribute @ [CHR 0x22])
                           element (message e))
                        (''Get attribute '' @ [CHR 0x22] @ attribute @ [CHR 0x22])
        \<and> str_includes (createErrorMessage (''Get attribute '' @ [CHR 0x22] @ attribute @ [CHR 0x22])
                           element (message e))
                        (elementDesc element))"
proof (intro conjI impI)
  assume "0 \<le> index \<and> 0 \<le> timeout
      \<and> loc_waitFor (createLocator page element index) Visible timeout = None
      \<and> (loc_textContent (createLocator page element index) timeout = Inr None
           \<or> loc_textContent (createLocator page element index) timeout = Inr (Some []))"
  then show "getElementText page element index timeout = Inr []"
    unfolding getElementText_def using validate_read[of element index timeout]
    by (auto simp: Let_def trim_def)
next
  assume "0 \<le> index \<and> 0 \<le> timeout
      \<and> loc_waitFor (createLocator page element index) Visible timeout = None
      \<and> loc_inputValue (createLocator page element index) = Inr []"
  then show "getInputValue page element index timeout = Inr []"
    unfolding getInputValue_def using validate_read[of element index timeout] by (simp add: Let_def)
next
  assume "0 \<le> index \<and> 0 \<le> timeout
      \<and> loc_waitFor (createLocator page element index) Attached timeout = None
      \<and> (loc_getAttribute (createLocator page element index) attribute = Inr None
           \<or> loc_getAttribute (createLocator page element index) attribute = Inr (Some []))"
  then show "getElementAttribute page element attribute index timeout = Inr []"
    unfolding getElementAttribute_def using validate_attribute[of element attribute index timeout]
    by (auto simp: Let_def)
next
  assume a: "0 \<le> index \<and> 0 \<le> timeout
      \<and> loc_waitFor (createLocator page element index) Visible timeout = Some e"
  show "getElementText page element index timeout
            = Inl (new_Error (createErrorMessage ''Get text'' element (message e)))"
    unfolding getElementText_def using a validate_read[of element index timeout] by (simp add: Let_def)
  show "getInputValue page element index timeout
            = Inl (new_Error (createErrorMessage ''Get input value'' element (message e)))"
    unfolding getInputValue_def using a validate_read[of element index timeout] by (simp add: Let_def)
  show "str_includes (createErrorMessage ''Get text'' element (message e)) ''Get text''"
    using createErrorMessage_names by blast
  show "str_includes (createErrorMessage ''Get text'' element (message e)) (elementDesc element)"
    using createErrorMessage_names by blast
  show "str_includes (createErrorMessage ''Get input value'' element (message e)) ''Get input value''"
    using createErrorMessage_names by blast
  show "str_includes (createErrorMessage ''Get input value'' element (message e)) (elementDesc element)"
    using createErrorMessage_names by blast
next
  assume a: "0 \<le> index \<and> 0 \<le> timeout
      \<and> loc_waitFor (createLocator page element index) Attached timeout = Some e"
  show "getElementAttribute page element attribute index timeout
            = Inl (new_Error (createErrorMessage (''Get attribute '' @ [CHR 0x22] @ attribute @ [CHR 0x22])
                                element (message e)))"
    unfolding getElementAttribute_def using a validate_attribute[of element attribute index timeout]
    by (simp add: Let_def)
  show "str_includes (createErrorMessage (''Get attribute '' @ [CHR 0x22] @ attribute @ [CHR 0x22])
                           element (message e))
                        (''Get attribute '' @ [CHR 0x22] @ attribute @ [CHR 0x22])"
    using createErrorMessage_names by blast
  show "str_includes (createErrorMessage (''Get attribute '' @ [CHR 0x22] @ attribute @ [CHR 0x22])
                           element (message e))
                        (elementDesc element)"
    using createErrorMessage_names by blast
qed

theorem read_defaults_witness:
  "getElementText page0 (Selector ''#title'') 0 5000 = Inr []
   \<and> getInputValue page0 (Selector ''#title'') 0 5000 = Inr []
   \<and> getElementAttribute page0 (Selector ''#title'') ''href'' 0 5000 = Inr []
   \<and> getElementText page0 (Selector ''#missing'') 0 5000
       = Inl (Error ''Error'' (''Get text failed for selector '' @ [CHR 0x22] @ ''#missing'' @ [CHR 0x22]
                                @ '': locator.waitFor: Timeout 5000ms exceeded.''))"
proof -
  have t: "createLocator page0 (Selector ''#title'') 0 = loc_empty"
    and m: "createLocator page0 (Selector ''#missing'') 0 = loc_missing"
    by (simp_all add: createLocator_def page0_def)
  have e: "loc_waitFor loc_empty Visible 5000 = None" "loc_waitFor loc_empty Attached 5000 = None"
    "loc_textContent loc_empty 5000 = Inr None" "loc_inputValue loc_empty = Inr []"
    "loc_getAttribute loc_empty ''href'' = Inr None"
    by (simp_all add: loc_empty_def loc_ok_def)
  have w: "loc_waitFor loc_missing Visible 5000 = Some timeout_5000"
    by (simp add: loc_missing_def)
  have msg: "new_Error (createErrorMessage ''Get text'' (Selector ''#missing'' :: LocatorObj ElementRef)
                          (message timeout_5000))
             = Error ''Error'' (''Get text failed for selector '' @ [CHR 0x22] @ ''#missing'' @ [CHR 0x22]
                                @ '': locator.waitFor: Timeout 5000ms exceeded.'')"
    by (simp add: new_Error_def createErrorMessage_def timeout_5000_def)
  show ?thesis
    using read_defaults[of 0 5000 page0 "Selector ''#title''" "''href''" timeout_5000]
      read_defaults[of 0 5000 page0 "Selector ''#missing''" "''href''" timeout_5000]
    by (simp add: t m e w msg)
qed

section \<open>Toggling a checkbox\<close>

lemma validate_waitForDisplayed:
  "validateParams [(''page'', JObj []), (''element'', JObj []), (''timeout'', JNum timeout)] = None
   \<longleftrightarrow> 0 \<le> timeout"
  by auto

lemma validate_isElementChecked:
  "validateParams [(''page'', JObj []), (''element'', JObj []), (''index'', JNum 0)] = None"
  by simp

lemma toggle_once:
  assumes "0 \<le> index" "0 \<le> timeout" "cb_visible cb" "cb_enabled cb" "cb_checked cb = Some b"
  shows "toggleCheckbox element index timeout cb = Inr (cb\<lparr> cb_checked := Some (\<not> b) \<rparr>)"
  using assms validate_read[of element index timeout]
  by (cases b)
     (simp_all add: toggleCheckbox_def waitForDisplayed_def isElementChecked_def
        validate_waitForDisplayed pw_waitFor_visible_def pw_isChecked_def pw_check_def pw_uncheck_def
        pw_setChecked_def)

lemma toggle_invalid:
  assumes "\<not> (0 \<le> index \<and> 0 \<le> timeout)"
  shows "\<exists>e. toggleCheckbox element index timeout cb = Inl e"
proof -
  obtain e where "validateParams [(''page'', JObj []), (''element'', element_arg element),
                   (''index'', JNum index), (''timeout'', JNum timeout)] = Some e"
    using assms validate_read[of element index timeout] by fastforce
  then show ?thesis by (simp add: toggleCheckbox_def)
qed

lemma toggle_hidden:
  assumes "0 \<le> index" "0 \<le> timeout" "\<not> cb_visible cb"
  shows "\<exists>e. toggleCheckbox element index timeout cb = Inl e"
  using assms validate_read[of element index timeout]
  by (simp add: toggleCheckbox_def waitForDisplayed_def validate_waitForDisplayed pw_waitFor_visible_def)

lemma toggle_disabled:
  assumes "0 \<le> index" "0 \<le> timeout" "cb_visible cb" "\<not> cb_enabled cb" "cb_checked cb = Some b"
  shows "\<exists>e. toggleCheckbox element index timeout cb = Inl e"
  using assms validate_read[of element index timeout]
  by (cases b)
     (simp_all add: toggleCheckbox_def waitForDisplayed_def isElementChecked_def
        validate_waitForDisplayed pw_waitFor_visible_def pw_isChecked_def pw_check_def pw_uncheck_def
        pw_setChecked_def)

lemma toggle_success_inverts:
  assumes d: "cb_checked cb = Some b" and s: "toggleCheckbox element index timeout cb = Inr cb'"
  shows "cb' = cb\<lparr> cb_checked := Some (\<not> b) \<rparr>"
proof -
  have p: "0 \<le> index \<and> 0 \<le> timeout" using toggle_invalid[of index timeout element cb] s by auto
  have v: "cb_visible cb" using toggle_hidden[of index timeout cb element] p s by auto
  have e: "cb_enabled cb" using toggle_disabled[of index timeout cb b element] p v d s by auto
  show ?thesis using toggle_once[of index timeout cb b element] p v e d s by simp
qed


text \<open>
  Claim C6. On an element with a determinate checked state \<open>b\<close>, every call of
  \<open>toggleCheckbox\<close> that returns leaves the element as it was except that its checked state
  is \<open>\<not> b\<close>; on such an element that is visible and enabled, with valid parameters, the
  call does return, and a second call on the result gives back the original element.
\<close>

theorem toggleCheckbox_inverts:
  "cb_checked cb = Some b \<longrightarrow>
     (\<forall>cb'. toggleCheckbox element index timeout cb = Inr cb' \<longrightarrow> cb' = cb\<lparr> cb_checked := Some (\<not> b) \<rparr>)
     \<and> (0 \<le> index \<and> 0 \<le> timeout \<and> cb_visible cb \<and> cb_enabled cb \<longrightarrow>
          toggleCheckbox element index timeout cb = Inr (cb\<lparr> cb_checked := Some (\<not> b) \<rparr>)
          \<and> toggleCheckbox element index timeout (cb\<lparr> cb_checked := Some (\<not> b) \<rparr>) = Inr cb)"
proof (intro impI conjI allI)
  fix cb'
  assume "cb_checked cb = Some b" "toggleCheckbox element index timeout cb = Inr cb'"
  then show "cb' = cb\<lparr> cb_checked := Some (\<not> b) \<rparr>" by (rule toggle_success_inverts)
next
  assume d: "cb_checked cb = Some b"
    and a: "0 \<le> index \<and> 0 \<le> timeout \<and> cb_visible cb \<and> cb_enabled cb"
  then show "toggleCheckbox element index timeout cb = Inr (cb\<lparr> cb_checked := Some (\<not> b) \<rparr>)"
    by (simp add: toggle_once)
  have "toggleCheckbox element index timeout (cb\<lparr> cb_checked := Some (\<not> b) \<rparr>)
          = Inr (cb\<lparr> cb_checked := Some (\<not> b) \<rparr>\<lparr> cb_checked := Some (\<not> \<not> b) \<rparr>)"
    using a by (intro toggle_once) simp_all
  then show "toggleCheckbox element index timeout (cb\<lparr> cb_checked := Some (\<not> b) \<rparr>) = Inr cb"
    using d by simp
qed

theorem toggleCheckbox_inverts_witness:
  "toggleCheckbox (Selector ''#sticky'' :: unit ElementRef) 0 5000 unchecked_box
     = Inr (unchecked_box\<lparr> cb_checked := Some True \<rparr>)
   \<and> toggleCheckbox (Selector ''#sticky'' :: unit ElementRef) 0 5000
        (unchecked_box\<lparr> cb_checked := Some True \<rparr>)
     = Inr unchecked_box"
proof -
  have d: "cb_checked unchecked_box = Some False"
    by (simp add: unchecked_box_def)
  have a: "(0::int) \<le> 0 \<and> (0::int) \<le> 5000 \<and> cb_visible unchecked_box \<and> cb_enabled unchecked_box"
    by (simp add: unchecked_box_def)
  have "toggleCheckbox (Selector ''#sticky'' :: unit ElementRef) 0 5000 unchecked_box
          = Inr (unchecked_box\<lparr> cb_checked := Some (\<not> False) \<rparr>)
        \<and> toggleCheckbox (Selector ''#sticky'' :: unit ElementRef) 0 5000
             (unchecked_box\<lparr> cb_checked := Some (\<not> False) \<rparr>)
          = Inr unchecked_box"
    using toggleCheckbox_inverts[of unchecked_box False "Selector ''#sticky'' :: unit ElementRef" 0 5000]
      d a by blast
  then show ?thesis by (simp only: not_False_eq_True)
qed


section \<open>The log buffer\<close>

lemma testLogs_after_clear:
  "filter (\<lambda>l. testName l = currentTest (clearTestLogs lg)) (logs (clearTestLogs lg)) = []"
  by (simp add: clearTestLogs_def filter_empty_conv)

lemma summary_after_clear:
  "generateTestSummary (clearTestLogs lg)
     = Inr \<lparr> sum_testName = currentTest lg, totalLogs = 0, logsByLevel = [], logsByCategory = [],
             timeline = [], insights = [], suggestions = [],
             performance = \<lparr> totalMeasurements = 0, measuredValues = [], timeouts = 0 \<rparr>,
             errors = [], warnings = [] \<rparr>"
proof -
  have c: "currentTest (clearTestLogs lg) = currentTest lg" by (simp add: clearTestLogs_def)
  show ?thesis
    unfolding generateTestSummary_def Let_def testLogs_after_clear
    by (simp add: c generateSuggestions_def groupLogsByLevel_def groupLogsByCategory_def
          generateTimeline_def generateInsights_def summarizePerformance_def)
qed

lemma export_after_clear:
  "\<exists>summary. exportForReporting (clearTestLogs lg)
     = Inr [\<lparr> att_name = [CHR 0xF0, CHR 0x9F, CHR 0x93, CHR 0x8B] @ '' Detailed Test Logs'',
               content = LogsJson (filter (\<lambda>l. testName l \<noteq> currentTest lg) (logs lg)),
               att_type = ''application/json'' \<rparr>,
            \<lparr> att_name = [CHR 0xF0, CHR 0x9F, CHR 0x93, CHR 0x8A] @ '' Test Execution Summary'',
               content = SummaryJson summary,
               att_type = ''application/json'' \<rparr>,
            \<lparr> att_name = [CHR 0xE2, CHR 0x8F, CHR 0xB1, CHR 0xEF, CHR 0xB8, CHR 0x8F]
                            @ '' Test Timeline Visualization'',
               content = TimelineHTML [],
               att_type = ''text/html'' \<rparr>,
            \<lparr> att_name = [CHR 0xF0, CHR 0x9F, CHR 0x91, CHR 0x86] @ '' User Actions Log'',
               content = ActionSteps (filter (\<lambda>l. level l = ACTION)
                                       (filter (\<lambda>l. testName l \<noteq> currentTest lg) (logs lg))),
               att_type = ''text/plain'' \<rparr>]"
  unfolding exportForReporting_def Let_def summary_after_clear
  by (simp add: generateActionSteps_def clearTestLogs_def)


text \<open>
  Claim C8. After \<open>clearTestLogs\<close> the buffer holds exactly the entries of the old buffer
  whose test name differs from the active test: those entries are all still there,
  unchanged, in their order and number, and no entry of the active test is. The active
  test stays the same, and \<open>exportForReporting\<close> then returns attachments of which the
  first, the detailed logs, renders exactly the entries of the other tests, so each of
  them is in an attachment.
\<close>

theorem clearTestLogs_scoped:
  "(\<forall>l. l \<in> set (logs (clearTestLogs lg)) \<longleftrightarrow> l \<in> set (logs lg) \<and> testName l \<noteq> currentTest lg)
   \<and> filter (\<lambda>l. testName l \<noteq> currentTest lg) (logs (clearTestLogs lg))
       = filter (\<lambda>l. testName l \<noteq> currentTest lg) (logs lg)
   \<and> currentTest (clearTestLogs lg) = currentTest lg
   \<and> (\<exists>atts. exportForReporting (clearTestLogs lg) = Inr atts
         \<and> content (hd atts) = LogsJson (filter (\<lambda>l. testName l \<noteq> currentTest lg) (logs lg))
         \<and> (\<forall>l \<in> set (logs lg). testName l \<noteq> currentTest lg \<longrightarrow>
               (\<exists>a \<in> set atts. \<exists>ls. content a = LogsJson ls \<and> l \<in> set ls)))"
proof (intro conjI)
  show "\<forall>l. l \<in> set (logs (clearTestLogs lg)) \<longleftrightarrow> l \<in> set (logs lg) \<and> testName l \<noteq> currentTest lg"
    by (simp add: clearTestLogs_def)
  show "filter (\<lambda>l. testName l \<noteq> currentTest lg) (logs (clearTestLogs lg))
       = filter (\<lambda>l. testName l \<noteq> currentTest lg) (logs lg)"
    by (simp add: clearTestLogs_def)
  show "currentTest (clearTestLogs lg) = currentTest lg"
    by (simp add: clearTestLogs_def)
  obtain atts a rest where atts: "exportForReporting (clearTestLogs lg) = Inr atts"
    and hd: "atts = a # rest"
    and a: "content a = LogsJson (filter (\<lambda>l. testName l \<noteq> currentTest lg) (logs lg))"
    using export_after_clear[of lg] by force
  have "\<forall>l \<in> set (logs lg). testName l \<noteq> currentTest lg \<longrightarrow>
               (\<exists>a \<in> set atts. \<exists>ls. content a = LogsJson ls \<and> l \<in> set ls)"
  proof (intro ballI impI)
    fix l assume "l \<in> set (logs lg)" "testName l \<noteq> currentTest lg"
    then have "l \<in> set (filter (\<lambda>l. testName l \<noteq> currentTest lg) (logs lg))" by simp
    with a hd show "\<exists>a \<in> set atts. \<exists>ls. content a = LogsJson ls \<and> l \<in> set ls" by auto
  qed
  with atts hd a
  show "\<exists>atts. exportForReporting (clearTestLogs lg) = Inr atts
         \<and> content (hd atts) = LogsJson (filter (\<lambda>l. testName l \<noteq> currentTest lg) (logs lg))
         \<and> (\<forall>l \<in> set (logs lg). testName l \<noteq> currentTest lg \<longrightarrow>
               (\<exists>a \<in> set atts. \<exists>ls. content a = LogsJson ls \<and> l \<in> set ls))"
    by auto
qed

theorem clearTestLogs_scoped_witness:
  "logs (clearTestLogs lg_two) = [entry_a]
   \<and> (\<exists>atts. exportForReporting (clearTestLogs lg_two) = Inr atts \<and> content (hd atts) = LogsJson [entry_a])"
proof -
  have f: "filter (\<lambda>l. testName l \<noteq> currentTest lg_two) (logs lg_two) = [entry_a]"
    by (simp add: lg_two_def entry_a_def entry_b_def)
  have "logs (clearTestLogs lg_two) = [entry_a]"
    using f by (simp add: clearTestLogs_def)
  moreover have "\<exists>atts. exportForReporting (clearTestLogs lg_two) = Inr atts
                   \<and> content (hd atts) = LogsJson [entry_a]"
    using clearTestLogs_scoped[of lg_two] unfolding f by blast
  ultimately show ?thesis by blast
qed


section \<open>Entering a value\<close>

lemma logs_log:
  "logs (log lvl msg ctx lg)
     = logs lg @ [\<lparr> log_id = fst (stamps lg (issued lg)), timestamp = snd (stamps lg (issued lg)),
                    level = lvl, log_message = msg, testName = currentTest lg,
                    log_context = (if truthy ctx then ctx else JObj []),
                    category = categorizeLog msg lvl, tags = generateTags msg lvl ctx \<rparr>]"
  by (simp add: log_def Let_def)

lemma spread_all_arrays: "\<forall>v \<in> set vs. is_array v \<Longrightarrow> \<exists>xs. spread_all vs = Inr xs"
proof (induction vs)
  case Nil
  then show ?case by simp
next
  case (Cons v vs)
  then obtain ys where ys: "spread_all vs = Inr ys" by auto
  from Cons.prems have "is_array v" by simp
  then obtain xs where "v = JArr xs" by (cases v) simp_all
  with ys show ?case by simp
qed

lemma generateSuggestions_returns:
  assumes "\<forall>l \<in> set ls. analysable l"
  shows "\<exists>xs. generateSuggestions ls = Inr xs"
proof -
  have "\<forall>v \<in> set (map (\<lambda>l. field (log_context l) ''suggestions'')
                     (filter (\<lambda>l. truthy (field (log_context l) ''suggestions'')) ls)). is_array v"
    using assms by (auto simp: analysable_def Let_def)
  from spread_all_arrays[OF this] show ?thesis
    by (auto simp: generateSuggestions_def)
qed

lemma export_first_attachment:
  assumes "\<forall>l \<in> set (logs lg). analysable l"
  shows "\<exists>a rest. exportForReporting lg = Inr (a # rest) \<and> content a = LogsJson (logs lg)"
proof -
  let ?testLogs = "filter (\<lambda>l. testName l = currentTest lg) (logs lg)"
  have "\<forall>l \<in> set ?testLogs. analysable l" using assms by simp
  from generateSuggestions_returns[OF this]
  obtain sugg where sugg: "generateSuggestions ?testLogs = Inr sugg" by blast
  then obtain summary where summary: "generateTestSummary lg = Inr summary"
    and errs: "errors summary = filter (\<lambda>l. level l = ERROR) ?testLogs"
    by (simp add: generateTestSummary_def Let_def)
  have "list_all analysable (errors summary)"
    using assms by (simp add: errs list_all_iff)
  then have ea: "generateErrorAnalysis (errors summary) = Inr (ErrorAnalysis (errors summary))"
    by (simp add: generateErrorAnalysis_def)
  show ?thesis
    by (simp add: exportForReporting_def Let_def summary ea)
qed

lemma verify_on: "ENABLE_VALUE_VERIFICATION cfg_verify"
  by (simp add: cfg_verify_def static_config_def no_env_def)

lemma monitoring_on: "ENABLE_PERFORMANCE_MONITORING cfg_verify"
  by (simp add: cfg_verify_def static_config_def no_env_def)

lemma retries_verify: "MAX_RETRIES cfg_verify = 1"
  unfolding cfg_verify_def by (rule static_default_retries) (simp add: no_env_def)

lemma fill_mismatch:
  "fillOperation cfg_verify page_login (Selector ''#user_pass'') ''password123456'' 0 5000 k lg
     = (Inl mismatch_error, lg)"
  by (simp add: fillOperation_def createLocator_def page_login_def loc_truncating_def loc_ok_def
        smartWaitForElement_def or_else_def verify_on mismatch_error_def Let_def)

lemma mismatch_recoverable: "\<not> isUnrecoverableError mismatch_error"
  by code_simp

lemma retryLoop_last_attempt:
  assumes "operation m lg = (Inl e, lg1)" "\<not> isUnrecoverableError e"
  shows "retryLoop cfg clk operation nm m baseDelay m lastError evs lg
           = (Inl (Some e), evs @ [Invoked m (Some e)],
              log ERROR (if ENABLE_PERFORMANCE_MONITORING cfg
                         then nm @ '' failed after '' @ show_int m @ '' attempts in ''
                                @ totalTime_fixed clk m @ ''ms: '' @ message e
                         else nm @ '' failed after '' @ show_int m @ '' attempts: '' @ message e)
                JUndefined lg1)"
  using assms by (subst retryLoop.simps) simp

lemma enterValue_mismatch:
  "enterValue cfg_verify clk0 page_login (Selector ''#user_pass'') ''password123456'' 0 5000 lg0
     = (Inl (new_Error (createErrorMessage ''Enter value'' (Selector ''#user_pass'' :: LocatorObj ElementRef)
                          (message mismatch_error))),
        logError mismatch_error (Some (Inr report_plain))
          (log ERROR (''Enter value in #user_pass failed after '' @ show_int 1 @ '' attempts in ''
                        @ ''12.34'' @ ''ms: '' @ message mismatch_error)
             JUndefined
             (logUserAction ''fill'' (Some ''#user_pass'') (Some ''password123456'') lg0)))"
proof -
  have v: "validateParams [(''page'', JObj []),
             (''element'', element_arg (Selector ''#user_pass'' :: LocatorObj ElementRef)),
             (''value'', JStr ''password123456''), (''index'', JNum 0), (''timeout'', JNum 5000)] = None"
    by simp
  have r: "retryOperation cfg_verify clk0
             (fillOperation cfg_verify page_login (Selector ''#user_pass'') ''password123456'' 0 5000)
             (''Enter value in '' @ elementSelector (Selector ''#user_pass'')) (MAX_RETRIES cfg_verify)
             BASE_RETRY_DELAY
             (logUserAction ''fill'' (Some (elementSelector (Selector ''#user_pass'')))
                (Some ''password123456'') lg0)
           = (Inl (Some mismatch_error), [Invoked 1 (Some mismatch_error)],
              log ERROR (''Enter value in #user_pass failed after '' @ show_int 1 @ '' attempts in ''
                        @ ''12.34'' @ ''ms: '' @ message mismatch_error)
                JUndefined
                (logUserAction ''fill'' (Some ''#user_pass'') (Some ''password123456'') lg0))"
    unfolding retryOperation_def retries_verify
    using retryLoop_last_attempt[of
            "fillOperation cfg_verify page_login (Selector ''#user_pass'') ''password123456'' 0 5000" 1
            "logUserAction ''fill'' (Some ''#user_pass'') (Some ''password123456'') lg0"
            mismatch_error
            "logUserAction ''fill'' (Some ''#user_pass'') (Some ''password123456'') lg0"
            cfg_verify clk0 "''Enter value in #user_pass''" BASE_RETRY_DELAY None "[]"]
      fill_mismatch mismatch_recoverable
    by (simp add: monitoring_on elementSelector_def clk0_def)
  show ?thesis
    unfolding enterValue_def v r by (simp add: page_login_def)
qed

lemma analysable_log:
  "(let s = field ctx ''suggestions'' in \<not> truthy s \<or> is_array s)
   \<Longrightarrow> (let st = field ctx ''stack'' in st = JUndefined \<or> st = JNull \<or> is_array st)
   \<Longrightarrow> \<forall>l \<in> set (logs lg). analysable l
   \<Longrightarrow> \<forall>l \<in> set (logs (log lvl msg ctx lg)). analysable l"
  by (auto simp: logs_log analysable_def Let_def)

lemma mismatch_message_includes:
  "str_includes (message mismatch_error) ''password123456''"
  by code_simp

lemma logError_message:
  "\<exists>entry. logs (logError error inspection lg) = logs lg @ [entry] \<and> log_message entry = message error"
  by (simp add: logError_def Let_def logs_log)

lemma logError_analysable:
  assumes "\<forall>l \<in> set (logs lg). analysable l"
  shows "\<forall>l \<in> set (logs (logError error inspection lg)). analysable l"
proof (cases inspection)
  case None
  show ?thesis
    unfolding logError_def Let_def None by (rule analysable_log[OF _ _ assms]) simp_all
next
  case (Some r)
  show ?thesis
  proof (cases r)
    case (Inl inspectionError)
    show ?thesis
      unfolding logError_def Let_def Some Inl by (rule analysable_log[OF _ _ assms]) simp_all
  next
    case (Inr pageInspection)
    show ?thesis
      unfolding logError_def Let_def Some Inr by (rule analysable_log[OF _ _ assms]) simp_all
  qed
qed

lemma logUserAction_analysable:
  assumes "\<forall>l \<in> set (logs lg). analysable l"
  shows "\<forall>l \<in> set (logs (logUserAction action element v lg)). analysable l"
  unfolding logUserAction_def by (rule analysable_log[OF _ _ assms]) simp_all

lemma log_plain_analysable:
  assumes "\<forall>l \<in> set (logs lg). analysable l"
  shows "\<forall>l \<in> set (logs (log lvl msg JUndefined lg)). analysable l"
  by (rule analysable_log[OF _ _ assms]) simp_all

lemma sanitizeValue_masks:
  "str_includes (toLowerCase v) ''password'' \<or> length v > 6
   \<Longrightarrow> sanitizeValue v = replicate (length v) (CHR ''*'')"
  by (simp add: sanitizeValue_def)

lemma logUserAction_stores_mask:
  assumes "str_includes (toLowerCase v) ''password'' \<or> length v > 6"
  shows "\<exists>entry. logs (logUserAction action element (Some v) lg) = logs lg @ [entry]
           \<and> field (log_context entry) ''value'' = JStr (replicate (length v) (CHR ''*''))"
proof -
  have "v \<noteq> []" using assms by (cases v) (auto simp: toLowerCase_def)
  then show ?thesis
    using sanitizeValue_masks[OF assms] by (simp add: logUserAction_def logs_log)
qed

text \<open>
  Claim C9 at a fill of \<open>password123456\<close> with value verification enabled, into a field
  whose value reads back different. The action entry stores the mask (lemma
  \<open>logUserAction_stores_mask\<close>), but the verification error quotes the raw value, the retry
  engine and \<open>logError\<close> log that message, and so an entry of the buffer contains the raw
  value and the detailed-logs attachment of \<open>exportForReporting\<close> renders it.
\<close>

theorem enterValue_logs_raw_value:
  "list_ex (\<lambda>l. str_includes (log_message l) ''password123456'')
     (logs (snd (enterValue cfg_verify clk0 page_login (Selector ''#user_pass'') ''password123456'' 0 5000 lg0)))
   \<and> (case exportForReporting
             (snd (enterValue cfg_verify clk0 page_login (Selector ''#user_pass'') ''password123456'' 0 5000 lg0)) of
        Inl e \<Rightarrow> False
      | Inr atts \<Rightarrow>
          content (hd atts)
            = LogsJson (logs (snd (enterValue cfg_verify clk0 page_login (Selector ''#user_pass'')
                                     ''password123456'' 0 5000 lg0))))"
proof -
  define lg1 where "lg1 = logUserAction ''fill'' (Some ''#user_pass'') (Some ''password123456'') lg0"
  define lg2 where "lg2 = log ERROR (''Enter value in #user_pass failed after '' @ show_int 1
                        @ '' attempts in '' @ ''12.34'' @ ''ms: '' @ message mismatch_error) JUndefined lg1"
  define lg3 where "lg3 = logError mismatch_error (Some (Inr report_plain)) lg2"
  have run: "snd (enterValue cfg_verify clk0 page_login (Selector ''#user_pass'') ''password123456'' 0 5000 lg0)
               = lg3"
    unfolding lg3_def lg2_def lg1_def by (simp only: enterValue_mismatch snd_conv)
  have a0: "\<forall>l \<in> set (logs lg0). analysable l" by (simp add: lg0_def)
  have a1: "\<forall>l \<in> set (logs lg1). analysable l"
    unfolding lg1_def by (rule logUserAction_analysable[OF a0])
  have a2: "\<forall>l \<in> set (logs lg2). analysable l"
    unfolding lg2_def by (rule log_plain_analysable[OF a1])
  have a3: "\<forall>l \<in> set (logs lg3). analysable l"
    unfolding lg3_def by (rule logError_analysable[OF a2])
  obtain entry where entry: "logs lg3 = logs lg2 @ [entry]" "log_message entry = message mismatch_error"
    unfolding lg3_def using logError_message by blast
  have "str_includes (log_message entry) ''password123456''"
    by (simp only: entry(2) mismatch_message_includes)
  then have leak: "list_ex (\<lambda>l. str_includes (log_message l) ''password123456'') (logs lg3)"
    by (simp add: entry(1))
  obtain a rest where ex: "exportForReporting lg3 = Inr (a # rest)" "content a = LogsJson (logs lg3)"
    using export_first_attachment[OF a3] by blast
  have "(case exportForReporting lg3 of Inl e \<Rightarrow> False
              | Inr atts \<Rightarrow> content (hd atts) = LogsJson (logs lg3))"
    by (simp add: ex)
  with leak show ?thesis unfolding run by (rule conjI)
qed

end
